theory Spec2Isabelle
  imports Complex_Main "HOL-Library.Word" "HOL-Library.Log_Nat"
begin

section \<open>JavaScript values\<close>

text \<open>
  The sources are TypeScript. A \<open>number\<close> is a rational; \<open>NaN\<close> and the infinities
  are outside the model. The scaling of \<open>normalizeAudio\<close> and the comparisons of
  \<open>validateTransition\<close>, whose outcome the rounding of IEEE doubles decides, are computed
  in double arithmetic: every literal and every operation there is rounded to a double by
  \<open>fl\<close>. Elsewhere (times, durations, volumes) the arithmetic is exact. A thrown
  exception is a value of type \<open>error\<close>; a function that can throw returns
  \<open>error + 'a\<close> with \<open>Inl\<close> for the exception. Strings are \<open>char list\<close>: the
  characters are the code units \<open>U+0000\<close> to \<open>U+00FF\<close>, with the case mapping and the
  whitespace class that JavaScript gives them.
\<close>

type_synonym number = rat

datatype error =
  Error string
  | TypeError
  | SyntaxError
  | ERR_OUT_OF_RANGE string

primrec foldE :: "('a \<Rightarrow> 's \<Rightarrow> error + 's) \<Rightarrow> 'a list \<Rightarrow> 's \<Rightarrow> error + 's" where
  \<comment> \<open>a \<open>for\<close> loop over \<open>xs\<close> whose body may throw: the first exception ends the loop\<close>
  "foldE f [] s = Inr s"
| "foldE f (x # xs) s = (case f x s of Inl e \<Rightarrow> Inl e | Inr s' \<Rightarrow> foldE f xs s')"

definition Math_round :: "number \<Rightarrow> int" where
  "Math_round x = \<lfloor>x + 1 / 2\<rfloor>"

definition Math_floor :: "number \<Rightarrow> int" where
  "Math_floor x = \<lfloor>x\<rfloor>"

definition Math_ceil :: "number \<Rightarrow> int" where
  "Math_ceil x = \<lceil>x\<rceil>"

subsection \<open>Doubles\<close>

text \<open>
  \<open>fl x\<close> is the IEEE 754 binary64 number nearest to \<open>x\<close>, a tie going to the even
  significand: when \<open>2^e \<le> |x| < 2^(e+1)\<close>, \<open>x\<close> is rounded to a multiple of
  \<open>2^(e-52)\<close>. The exponent is not bounded: overflow and the subnormal numbers
  (magnitudes above \<open>2^1024\<close> or below \<open>2^-1022\<close>) are outside the model. An
  arithmetic operation of JavaScript is the exact operation followed by \<open>fl\<close>, and a
  literal or a field that is given as a rational holds \<open>fl\<close> of it.
\<close>

definition exponent :: "rat \<Rightarrow> int" where
  \<comment> \<open>for \<open>x \<noteq> 0\<close>, the \<open>e\<close> with \<open>2^e \<le> |x| < 2^(e+1)\<close>\<close>
  "exponent x =
     (if 1 \<le> \<bar>x\<bar> then bitlen \<lfloor>\<bar>x\<bar>\<rfloor> - 1 else - bitlen (\<lceil>1 / \<bar>x\<bar>\<rceil> - 1))"

definition roundTiesToEven :: "rat \<Rightarrow> int" where
  "roundTiesToEven x =
     (let f = \<lfloor>x\<rfloor>;
          d = x - of_int f
      in if d < 1 / 2 then f
         else if 1 / 2 < d then f + 1
         else if even f then f else f + 1)"

definition fl :: "rat \<Rightarrow> number" where
  "fl x =
     (if x = 0 then 0
      else (let ulp = 2 powi (exponent x - 52)
            in of_int (roundTiesToEven (x / ulp)) * ulp))"

subsection \<open>Strings\<close>

definition isUpper :: "char \<Rightarrow> bool" where
  "isUpper c = (65 \<le> (of_char c :: nat) \<and> (of_char c :: nat) \<le> 90)"

definition isLower :: "char \<Rightarrow> bool" where
  "isLower c = (97 \<le> (of_char c :: nat) \<and> (of_char c :: nat) \<le> 122)"

definition isDigit :: "char \<Rightarrow> bool" where
  "isDigit c = (48 \<le> (of_char c :: nat) \<and> (of_char c :: nat) \<le> 57)"

definition isSpace :: "char \<Rightarrow> bool" where
  \<comment> \<open>the members of the class \<open>\s\<close> below \<open>U+0100\<close>: tab, line feed, vertical tab,
      form feed, carriage return, space and the no-break space \<open>U+00A0\<close>\<close>
  "isSpace c = ((of_char c :: nat) \<in> {9, 10, 11, 12, 13, 32, 160})"

definition toLowerCaseChar :: "char \<Rightarrow> char" where
  \<comment> \<open>\<open>A\<close> to \<open>Z\<close>, and the capital letters \<open>U+00C0\<close> to \<open>U+00DE\<close> of Latin-1
      (\<open>U+00D7\<close>, the multiplication sign, is not one), are 32 below their small letters\<close>
  "toLowerCaseChar c =
     (if isUpper c
         \<or> (192 \<le> (of_char c :: nat) \<and> (of_char c :: nat) \<le> 222 \<and> (of_char c :: nat) \<noteq> 215)
      then char_of ((of_char c :: nat) + 32) else c)"

definition toLowerCase :: "string \<Rightarrow> string" where
  "toLowerCase s = map toLowerCaseChar s"

fun startsWith :: "string \<Rightarrow> string \<Rightarrow> bool" where
  "startsWith s [] = True"
| "startsWith [] (p # ps) = False"
| "startsWith (c # cs) (p # ps) = (c = p \<and> startsWith cs ps)"

fun indexOfFrom :: "nat \<Rightarrow> string \<Rightarrow> string \<Rightarrow> int" where
  "indexOfFrom i [] sub = (if sub = [] then int i else - 1)"
| "indexOfFrom i (c # cs) sub =
     (if startsWith (c # cs) sub then int i else indexOfFrom (Suc i) cs sub)"

definition indexOf :: "string \<Rightarrow> string \<Rightarrow> int" where
  \<comment> \<open>\<open>s.indexOf(sub)\<close>: the first index at which \<open>sub\<close> occurs, or \<open>-1\<close>\<close>
  "indexOf s sub = indexOfFrom 0 s sub"

definition string_includes :: "string \<Rightarrow> string \<Rightarrow> bool" where
  "string_includes s sub = (indexOf s sub \<noteq> - 1)"

definition trim :: "string \<Rightarrow> string" where
  "trim s = rev (dropWhile isSpace (rev (dropWhile isSpace s)))"

subsection \<open>Node.js buffers\<close>

text \<open>
  A \<open>Buffer\<close> is its sequence of bytes. \<open>readInt16LE\<close> and \<open>writeInt16LE\<close> throw
  \<open>ERR_OUT_OF_RANGE\<close>, naming the offending argument, when the offset does not leave room
  for two bytes or when the value written is not a signed 16-bit integer.
\<close>

type_synonym Buffer = "8 word list"

definition Buffer_alloc :: "int \<Rightarrow> error + Buffer" where
  "Buffer_alloc n =
     (if n < 0 then Inl (ERR_OUT_OF_RANGE ''size'') else Inr (replicate (nat n) 0))"

definition readInt16LE :: "Buffer \<Rightarrow> int \<Rightarrow> error + int" where
  "readInt16LE buf offset =
     (if offset < 0 \<or> int (length buf) < offset + 2 then Inl (ERR_OUT_OF_RANGE ''offset'')
      else (let lo = uint (buf ! nat offset);
                hi = uint (buf ! (nat offset + 1));
                u = lo + 256 * hi
            in Inr (if u \<ge> 32768 then u - 65536 else u)))"

definition writeInt16LE :: "Buffer \<Rightarrow> int \<Rightarrow> int \<Rightarrow> error + Buffer" where
  "writeInt16LE buf v offset =
     (if v < - 32768 \<or> v > 32767 then Inl (ERR_OUT_OF_RANGE ''value'')
      else if offset < 0 \<or> int (length buf) < offset + 2 then Inl (ERR_OUT_OF_RANGE ''offset'')
      else (let u = v mod 65536
            in Inr (buf[nat offset := word_of_int (u mod 256),
                        nat offset + 1 := word_of_int (u div 256)])))"

section \<open>Voice interface (\<open>voice.interface.ts\<close>)\<close>

datatype EmotionType = happy | sad | angry | excited | calm | fearful | surprised | neutral

record EmotionVariation =
  subtype :: string
  var_intensity :: number
  var_duration :: "number option"

record EmotionProfile =
  type :: EmotionType
  intensity :: number
  variations :: "EmotionVariation list"

datatype Gender = gender_male | gender_female | gender_neutral
datatype Age = child | young | adult | senior
datatype Timbre = deep | medium | high
datatype Pace = slow | normal | fast

record EmphasisPoint =
  ep_word :: string
  ep_strength :: number
  ep_position :: number

record PausePoint =
  pp_position :: number
  pp_duration :: number

datatype OutputFormat = mp3 | wav | aac

record VoiceCharacteristics =
  vc_gender :: Gender
  vc_age :: Age
  vc_accent :: string
  vc_personality :: "string list"
  vc_defaultEmotion :: EmotionProfile
  vc_timbre :: Timbre
  vc_pace :: Pace

section \<open>Prompt interpreter (\<open>utils/prompt-parser.ts\<close>)\<close>

definition parseGender :: "string \<Rightarrow> Gender" where
  \<comment> \<open>four assignments in sequence: a later one that fires overwrites the earlier ones\<close>
  "parseGender lowerPrompt =
     (let g0 = gender_neutral;
          g1 = (if string_includes lowerPrompt ''male'' \<and> \<not> string_includes lowerPrompt ''female''
                then gender_male else g0);
          g2 = (if string_includes lowerPrompt ''female'' then gender_female else g1);
          g3 = (if string_includes lowerPrompt ''woman'' then gender_female else g2);
          g4 = (if string_includes lowerPrompt ''man'' \<and> \<not> string_includes lowerPrompt ''woman''
                then gender_male else g3)
      in g4)"

definition parseAge :: "string \<Rightarrow> Age" where
  "parseAge lowerPrompt =
     (let a0 = adult;
          a1 = (if string_includes lowerPrompt ''child'' \<or> string_includes lowerPrompt ''kid''
                then child else a0);
          a2 = (if string_includes lowerPrompt ''young'' \<or> string_includes lowerPrompt ''teen''
                then young else a1);
          a3 = (if string_includes lowerPrompt ''old'' \<or> string_includes lowerPrompt ''senior''
                   \<or> string_includes lowerPrompt ''elderly''
                then senior else a2)
      in a3)"

definition accents :: "(string \<times> string list) list" where
  "accents =
     [(''australian'', [''australian'', ''aussie'']),
      (''british'', [''british'', ''uk'', ''english'', ''london'']),
      (''american'', [''american'', ''us'', ''usa'']),
      (''irish'', [''irish'', ''ireland'']),
      (''scottish'', [''scottish'', ''scotland'']),
      (''southern'', [''southern'', ''texan'', ''georgia'']),
      (''new york'', [''new york'', ''brooklyn'', ''bronx'']),
      (''california'', [''california'', ''valley'', ''surfer''])]"

fun parseAccent :: "(string \<times> string list) list \<Rightarrow> string \<Rightarrow> string" where
  "parseAccent [] lowerPrompt = ''neutral''"
| "parseAccent ((accentName, keywords) # rest) lowerPrompt =
     (if list_ex (string_includes lowerPrompt) keywords then accentName
      else parseAccent rest lowerPrompt)"

definition personalityMap :: "(string \<times> string list) list" where
  "personalityMap =
     [(''cheerful'', [''cheerful'', ''happy'', ''joyful'', ''upbeat'']),
      (''calm'', [''calm'', ''peaceful'', ''serene'', ''relaxed'', ''soothing'']),
      (''energetic'', [''energetic'', ''excited'', ''dynamic'', ''lively'']),
      (''wise'', [''wise'', ''contemplative'', ''thoughtful'', ''sage'']),
      (''friendly'', [''friendly'', ''warm'', ''welcoming'', ''kind'']),
      (''professional'', [''professional'', ''business'', ''corporate'', ''formal'']),
      (''dramatic'', [''dramatic'', ''theatrical'', ''expressive'']),
      (''mysterious'', [''mysterious'', ''enigmatic'', ''secretive'']),
      (''confident'', [''confident'', ''assertive'', ''strong'']),
      (''gentle'', [''gentle'', ''soft'', ''tender'', ''caring''])]"

definition parsePersonality :: "string \<Rightarrow> string list" where
  "parsePersonality lowerPrompt =
     map fst (filter (\<lambda>(trait, keywords). list_ex (string_includes lowerPrompt) keywords)
                personalityMap)"

definition parseTimbre :: "string \<Rightarrow> Timbre" where
  "parseTimbre lowerPrompt =
     (if string_includes lowerPrompt ''deep'' \<or> string_includes lowerPrompt ''low''
         \<or> string_includes lowerPrompt ''bass'' then deep
      else if string_includes lowerPrompt ''high'' \<or> string_includes lowerPrompt ''light''
         \<or> string_includes lowerPrompt ''soprano'' then high
      else medium)"

definition parsePace :: "string \<Rightarrow> Pace" where
  "parsePace lowerPrompt =
     (if string_includes lowerPrompt ''slow'' \<or> string_includes lowerPrompt ''relaxed''
         \<or> string_includes lowerPrompt ''leisurely'' then slow
      else if string_includes lowerPrompt ''fast'' \<or> string_includes lowerPrompt ''quick''
         \<or> string_includes lowerPrompt ''rapid'' then fast
      else normal)"

definition defaultEmotionType :: "string list \<Rightarrow> EmotionType" where
  "defaultEmotionType personality =
     (if ''cheerful'' \<in> set personality then happy
      else if ''calm'' \<in> set personality then calm
      else if ''energetic'' \<in> set personality then excited
      else if ''dramatic'' \<in> set personality then excited
      else neutral)"

definition parseVoicePrompt :: "string \<Rightarrow> VoiceCharacteristics" where
  "parseVoicePrompt prompt =
     (let lowerPrompt = toLowerCase prompt;
          personality = parsePersonality lowerPrompt
      in \<lparr> vc_gender = parseGender lowerPrompt,
           vc_age = parseAge lowerPrompt,
           vc_accent = parseAccent accents lowerPrompt,
           vc_personality = personality,
           vc_defaultEmotion =
             \<lparr> type = defaultEmotionType personality, intensity = 1 / 2, variations = [] \<rparr>,
           vc_timbre = parseTimbre lowerPrompt,
           vc_pace = parsePace lowerPrompt \<rparr>)"

section \<open>Emotion transitions (\<open>interfaces/emotion-transition.interface.ts\<close>)\<close>

datatype TransitionCurve = Linear | EaseIn | EaseOut | EaseInOut | Bezier

record EmotionTrigger =
  trig_word :: "string option"
  trig_time :: "number option"
  trig_marker :: "string option"
  trig_position :: "number option"

record EmotionTransition =
  tr_id :: "string option"
  fromEmotion :: EmotionProfile
  toEmotion :: EmotionProfile
  duration :: number
  tr_curve :: TransitionCurve
  triggers :: EmotionTrigger
  tr_controlPoints :: "(number \<times> number) list option"

record EmotionKeyframe =
  kf_time :: number
  kf_emotion :: EmotionType
  kf_intensity :: number
  kf_transition :: "EmotionTransition option"

record EmotionTimeline =
  tl_keyframes :: "EmotionKeyframe list"
  tl_duration :: number
  tl_defaultEmotion :: EmotionProfile

record TransitionConfig =
  enableSmoothing :: bool
  minimumDuration :: number
  maximumDuration :: number
  naturalBreaks :: bool
  intensityThreshold :: number

record TransitionData =
  td_fromEmotion :: EmotionProfile
  td_toEmotion :: EmotionProfile
  td_progress :: number

record EmotionSegment =
  seg_startTime :: number
  seg_endTime :: number
  seg_text :: string
  seg_emotion :: EmotionProfile
  isTransition :: bool
  transitionData :: "TransitionData option"

record EmotionTransitionResult =
  res_timeline :: EmotionTimeline
  res_segments :: "EmotionSegment list"
  res_totalDuration :: number
  transitionCount :: nat

section \<open>Emotion curves (\<open>utils/emotion-curves.ts\<close>)\<close>

definition linear :: "number \<Rightarrow> number" where
  "linear progress = max 0 (min 1 progress)"

definition easeIn :: "number \<Rightarrow> number" where
  "easeIn progress = progress * progress"

definition easeOut :: "number \<Rightarrow> number" where
  "easeOut progress = 1 - (1 - progress) ^ 2"

definition easeInOut :: "number \<Rightarrow> number" where
  "easeInOut progress =
     (if progress < 1 / 2 then 2 * progress * progress
      else 1 - (- 2 * progress + 2) ^ 2 / 2)"

definition defaultControlPoints :: "(number \<times> number) list" where
  "defaultControlPoints = [(1 / 4, 1 / 10), (3 / 4, 9 / 10)]"

definition bezier :: "number \<Rightarrow> (number \<times> number) list option \<Rightarrow> error + number" where
  \<comment> \<open>the default applies when the argument is \<open>undefined\<close>; reading \<open>cp[1]\<close> of a
      missing control point throws a TypeError\<close>
  "bezier progress controlPoints =
     (let cps = (case controlPoints of None \<Rightarrow> defaultControlPoints | Some l \<Rightarrow> l)
      in case cps of
           cp1 # cp2 # _ \<Rightarrow>
             (let t = progress; t2 = t * t; t3 = t2 * t;
                  mt = 1 - t; mt2 = mt * mt; mt3 = mt2 * mt
              in Inr (mt3 * 0 + 3 * mt2 * t * snd cp1 + 3 * mt * t2 * snd cp2 + t3 * 1))
         | _ \<Rightarrow> Inl TypeError)"

definition getCurveFunction ::
  "TransitionCurve \<Rightarrow> (number \<times> number) list option \<Rightarrow> number \<Rightarrow> error + number" where
  \<comment> \<open>the \<open>calculate\<close> member of the entry that \<open>curveMap[curve]\<close> selects\<close>
  "getCurveFunction curve controlPoints progress =
     (case curve of
        Linear \<Rightarrow> Inr (linear progress)
      | EaseIn \<Rightarrow> Inr (easeIn progress)
      | EaseOut \<Rightarrow> Inr (easeOut progress)
      | EaseInOut \<Rightarrow> Inr (easeInOut progress)
      | Bezier \<Rightarrow> bezier progress controlPoints)"

definition interpolateEmotionIntensity ::
  "number \<Rightarrow> number \<Rightarrow> number \<Rightarrow> TransitionCurve \<Rightarrow> (number \<times> number) list option
   \<Rightarrow> error + number" where
  "interpolateEmotionIntensity fromIntensity toIntensity progress curve controlPoints =
     (case getCurveFunction curve controlPoints progress of
        Inl e \<Rightarrow> Inl e
      | Inr easedProgress \<Rightarrow> Inr (fromIntensity + (toIntensity - fromIntensity) * easedProgress))"

section \<open>Emotion transition engine (\<open>core/emotion-transition-engine.ts\<close>)\<close>

text \<open>
  The marker trigger compiles the caller's marker text into a regular expression
  (\<open>new RegExp('\\[' + marker + '\\]', 'i')\<close>) and searches the text with it. The
  regular expression engine is the runtime's: it is the parameter \<open>markerSearch\<close>, which
  returns \<open>Inl SyntaxError\<close> when the pattern does not compile and otherwise the index of
  the first match, if any.
\<close>

type_synonym markerSearch = "string \<Rightarrow> string \<Rightarrow> error + nat option"

function splitSpaces :: "string \<Rightarrow> string list" where
  \<comment> \<open>\<open>text.split(/\s+/)\<close>: the pieces between maximal runs of whitespace; a run at
      either end leaves an empty piece there, and the empty string gives one empty piece\<close>
  "splitSpaces [] = [[]]"
| "splitSpaces (c # cs) =
     (if isSpace c then [] # splitSpaces (dropWhile isSpace cs)
      else (case splitSpaces cs of w # ws \<Rightarrow> (c # w) # ws | [] \<Rightarrow> [[c]]))"
  by pat_completeness auto
termination
  by (relation "measure length") (auto simp: le_imp_less_Suc length_dropWhile_le)

definition defaultConfig :: TransitionConfig where
  "defaultConfig =
     \<lparr> enableSmoothing = True, minimumDuration = 500, maximumDuration = 3000,
       naturalBreaks = True, intensityThreshold = 1 / 10 \<rparr>"

definition estimateAudioDuration :: "string \<Rightarrow> number" where
  "estimateAudioDuration text =
     (let wordCount = length (splitSpaces text);
          wordsPerMinute = 180;
          durationMinutes = of_nat wordCount / wordsPerMinute
      in durationMinutes * 60 * 1000)"

definition wordTriggerTime :: "string \<Rightarrow> EmotionTrigger \<Rightarrow> number option" where
  \<comment> \<open>the word-based branch: \<open>Some\<close> when it returns, \<open>None\<close> when control falls through\<close>
  "wordTriggerTime text trigger =
     (case trig_word trigger of
        None \<Rightarrow> None
      | Some w \<Rightarrow>
          if w = [] then None
          else (let wordIndex = indexOf (toLowerCase text) (toLowerCase w)
                in if wordIndex \<ge> 0 then Some ((of_int wordIndex / 15) * 1000) else None))"

definition markerTriggerTime ::
  "markerSearch \<Rightarrow> string \<Rightarrow> EmotionTrigger \<Rightarrow> error + number option" where
  "markerTriggerTime search text trigger =
     (case trig_marker trigger of
        None \<Rightarrow> Inr None
      | Some m \<Rightarrow>
          if m = [] then Inr None
          else (case search m text of
                  Inl e \<Rightarrow> Inl e
                | Inr None \<Rightarrow> Inr None
                | Inr (Some index) \<Rightarrow> Inr (Some ((of_nat index / 15) * 1000))))"

definition calculateTriggerTime ::
  "markerSearch \<Rightarrow> string \<Rightarrow> EmotionTransition \<Rightarrow> error + number" where
  "calculateTriggerTime search text transition =
     (let trigger = triggers transition
      in case trig_time trigger of
           Some t \<Rightarrow> Inr t
         | None \<Rightarrow>
             (case wordTriggerTime text trigger of
                Some t \<Rightarrow> Inr t
              | None \<Rightarrow>
                  (case trig_position trigger of
                     Some p \<Rightarrow> Inr ((p / 15) * 1000)
                   | None \<Rightarrow>
                       (case markerTriggerTime search text trigger of
                          Inl e \<Rightarrow> Inl e
                        | Inr (Some t) \<Rightarrow> Inr t
                        | Inr None \<Rightarrow> Inr (- 1)))))"

definition defaultKeyframe :: "EmotionProfile \<Rightarrow> EmotionKeyframe" where
  \<comment> \<open>the initial keyframe\<close>
  "defaultKeyframe defaultEmotion =
     \<lparr> kf_time = 0, kf_emotion = type defaultEmotion,
       kf_intensity = intensity defaultEmotion, kf_transition = None \<rparr>"

definition startKeyframe :: "number \<Rightarrow> EmotionTransition \<Rightarrow> EmotionKeyframe" where
  \<comment> \<open>the keyframe pushed for the start of a transition\<close>
  "startKeyframe triggerTime transition =
     \<lparr> kf_time = triggerTime,
       kf_emotion = type (fromEmotion transition),
       kf_intensity = intensity (fromEmotion transition),
       kf_transition = Some transition \<rparr>"

definition endKeyframe :: "number \<Rightarrow> EmotionTransition \<Rightarrow> EmotionKeyframe" where
  \<comment> \<open>the keyframe pushed for the end of a transition\<close>
  "endKeyframe triggerTime transition =
     \<lparr> kf_time = triggerTime + duration transition,
       kf_emotion = type (toEmotion transition),
       kf_intensity = intensity (toEmotion transition),
       kf_transition = None \<rparr>"

fun pushTransitionKeyframes ::
  "markerSearch \<Rightarrow> string \<Rightarrow> EmotionTransition list \<Rightarrow> EmotionKeyframe list
   \<Rightarrow> error + EmotionKeyframe list" where
  \<comment> \<open>the loop over the transitions; \<open>keyframes\<close> is the array built so far\<close>
  "pushTransitionKeyframes search text [] keyframes = Inr keyframes"
| "pushTransitionKeyframes search text (transition # rest) keyframes =
     (case calculateTriggerTime search text transition of
        Inl e \<Rightarrow> Inl e
      | Inr triggerTime \<Rightarrow>
          if triggerTime \<ge> 0 then
            pushTransitionKeyframes search text rest
              (keyframes @
               [startKeyframe triggerTime transition, endKeyframe triggerTime transition])
          else pushTransitionKeyframes search text rest keyframes)"

definition createEmotionTimeline ::
  "markerSearch \<Rightarrow> string \<Rightarrow> EmotionTransition list \<Rightarrow> EmotionProfile
   \<Rightarrow> error + EmotionTimeline" where
  \<comment> \<open>\<open>Array.prototype.sort\<close> is stable; with the comparator \<open>a.time - b.time\<close> it is
      the stable sort by time, here \<open>sort_key\<close>\<close>
  "createEmotionTimeline search text transitions defaultEmotion =
     (case pushTransitionKeyframes search text transitions
             [defaultKeyframe defaultEmotion] of
        Inl e \<Rightarrow> Inl e
      | Inr keyframes \<Rightarrow>
          Inr \<lparr> tl_keyframes = sort_key kf_time keyframes,
                tl_duration = estimateAudioDuration text,
                tl_defaultEmotion = defaultEmotion \<rparr>)"

definition keyframeProfile :: "EmotionKeyframe \<Rightarrow> EmotionProfile" where
  \<comment> \<open>the object literal \<open>{type: kf.emotion, intensity: kf.intensity, variations: []}\<close>\<close>
  "keyframeProfile kf = \<lparr> type = kf_emotion kf, intensity = kf_intensity kf, variations = [] \<rparr>"

definition interpolateEmotion ::
  "EmotionKeyframe \<Rightarrow> EmotionKeyframe \<Rightarrow> number \<Rightarrow> EmotionTransition
   \<Rightarrow> error + EmotionProfile" where
  "interpolateEmotion fromKeyframe toKeyframe currentTime transition =
     (let progress = (currentTime - kf_time fromKeyframe) / duration transition;
          clampedProgress = max 0 (min 1 progress)
      in case interpolateEmotionIntensity
                (intensity (fromEmotion transition)) (intensity (toEmotion transition))
                clampedProgress (tr_curve transition) (tr_controlPoints transition) of
           Inl e \<Rightarrow> Inl e
         | Inr v \<Rightarrow>
             Inr \<lparr> type = (if clampedProgress < 1 / 2 then type (fromEmotion transition)
                            else type (toEmotion transition)),
                   intensity = v, variations = [] \<rparr>)"

fun getEmotionAtTimeLoop :: "EmotionKeyframe list \<Rightarrow> number \<Rightarrow> error + EmotionProfile" where
  \<comment> \<open>the loop over adjacent pairs, then the last keyframe; reading a field of the last
      keyframe of an empty array throws\<close>
  "getEmotionAtTimeLoop (current # next # rest) t =
     (if t \<ge> kf_time current \<and> t \<le> kf_time next then
        (case kf_transition current of
           Some transition \<Rightarrow>
             if t \<le> kf_time current + duration transition
             then interpolateEmotion current next t transition
             else Inr (keyframeProfile current)
         | None \<Rightarrow> Inr (keyframeProfile current))
      else getEmotionAtTimeLoop (next # rest) t)"
| "getEmotionAtTimeLoop [lastKeyframe] t = Inr (keyframeProfile lastKeyframe)"
| "getEmotionAtTimeLoop [] t = Inl TypeError"

definition getEmotionAtTime :: "EmotionTimeline \<Rightarrow> number \<Rightarrow> error + EmotionProfile" where
  "getEmotionAtTime timeline t = getEmotionAtTimeLoop (tl_keyframes timeline) t"

fun getTransitionAtTimeLoop :: "EmotionKeyframe list \<Rightarrow> number \<Rightarrow> TransitionData option" where
  "getTransitionAtTimeLoop [] t = None"
| "getTransitionAtTimeLoop (keyframe # rest) t =
     (case kf_transition keyframe of
        Some transition \<Rightarrow>
          if t \<ge> kf_time keyframe \<and> t \<le> kf_time keyframe + duration transition
          then Some \<lparr> td_fromEmotion = fromEmotion transition,
                      td_toEmotion = toEmotion transition,
                      td_progress = (t - kf_time keyframe) / duration transition \<rparr>
          else getTransitionAtTimeLoop rest t
      | None \<Rightarrow> getTransitionAtTimeLoop rest t)"

definition getTransitionAtTime :: "EmotionTimeline \<Rightarrow> number \<Rightarrow> TransitionData option" where
  "getTransitionAtTime timeline t = getTransitionAtTimeLoop (tl_keyframes timeline) t"

definition splitTextIntoWords :: "string \<Rightarrow> string list" where
  "splitTextIntoWords text = filter (\<lambda>w. length w > 0) (splitSpaces text)"

fun generateSegmentsLoop ::
  "EmotionTimeline \<Rightarrow> string list \<Rightarrow> number \<Rightarrow> error + EmotionSegment list" where
  "generateSegmentsLoop timeline [] currentTime = Inr []"
| "generateSegmentsLoop timeline (w # ws) currentTime =
     (let wordDuration = (of_nat (length w) / 15) * 1000;
          segmentEndTime = currentTime + wordDuration
      in case getEmotionAtTime timeline currentTime of
           Inl e \<Rightarrow> Inl e
         | Inr emotionAtTime \<Rightarrow>
             (let transitionData = getTransitionAtTime timeline currentTime;
                  segment = \<lparr> seg_startTime = currentTime, seg_endTime = segmentEndTime,
                              seg_text = w, seg_emotion = emotionAtTime,
                              isTransition = (transitionData \<noteq> None),
                              transitionData = transitionData \<rparr>
              in case generateSegmentsLoop timeline ws segmentEndTime of
                   Inl e \<Rightarrow> Inl e
                 | Inr segs \<Rightarrow> Inr (segment # segs)))"

definition generateEmotionSegments :: "string \<Rightarrow> EmotionTimeline \<Rightarrow> error + EmotionSegment list" where
  "generateEmotionSegments text timeline =
     generateSegmentsLoop timeline (splitTextIntoWords text) 0"

definition processEmotionTransitions ::
  "TransitionConfig \<Rightarrow> markerSearch \<Rightarrow> string \<Rightarrow> EmotionTransition list \<Rightarrow> EmotionProfile
   \<Rightarrow> error + EmotionTransitionResult" where
  \<comment> \<open>\<open>config\<close> is the engine's \<open>this.config\<close>; the method does not read it\<close>
  "processEmotionTransitions config search text transitions defaultEmotion =
     (case createEmotionTimeline search text transitions defaultEmotion of
        Inl e \<Rightarrow> Inl e
      | Inr timeline \<Rightarrow>
          (case generateEmotionSegments text timeline of
             Inl e \<Rightarrow> Inl e
           | Inr segments \<Rightarrow>
               Inr \<lparr> res_timeline = timeline, res_segments = segments,
                     res_totalDuration = estimateAudioDuration text,
                     transitionCount = length transitions \<rparr>))"

definition validateTransition :: "TransitionConfig \<Rightarrow> EmotionTransition \<Rightarrow> bool" where
  \<comment> \<open>the numbers compared are doubles: each field holds \<open>fl\<close> of what is given for it,
      and the subtraction is rounded\<close>
  "validateTransition config transition =
     (if fl (duration transition) < fl (minimumDuration config) then False
      else if fl (duration transition) > fl (maximumDuration config) then False
      else (let intensityDiff =
                  \<bar>fl (fl (intensity (toEmotion transition))
                       - fl (intensity (fromEmotion transition)))\<bar>
            in if intensityDiff < fl (intensityThreshold config) then False else True))"

section \<open>Conversation interface (\<open>interfaces/conversation.interface.ts\<close>)\<close>

text \<open>
  Record fields carry a prefix naming their interface, since a field name is a constant of
  the theory. Fields that no modelled function reads (custom settings, dates, personality,
  speech patterns, audio effects, statistics, metadata) are left out.
\<close>

record VoiceProfile =
  vp_id :: string
  vp_name :: string
  vp_provider :: string
  vp_baseVoiceId :: string
  vp_characteristics :: VoiceCharacteristics

record VoiceModulation =
  vm_emotion :: EmotionProfile
  vm_speed :: number
  vm_pitch :: number
  vm_volume :: number
  vm_emphasis :: "EmphasisPoint list"
  vm_pauses :: "PausePoint list"

record GenerationRequest =
  gr_text :: string
  gr_voiceProfile :: "VoiceProfile option"
  gr_modulation :: "VoiceModulation option"
  gr_outputFormat :: OutputFormat
  gr_emotionTransitions :: "EmotionTransition list option"

record ConversationCharacter =
  cc_id :: string
  cc_name :: string
  cc_voiceProfile :: VoiceProfile
  cc_defaultEmotion :: EmotionProfile

record OverlapConfig =
  oc_enabled :: bool
  oc_targetLineId :: "string option"
  oc_overlapStart :: number
  oc_overlapDuration :: number
  oc_volumeReduction :: number

record DialogueTiming =
  dt_startTime :: number
  dt_endTime :: "number option"
  dt_pauseBefore :: "number option"
  dt_pauseAfter :: "number option"
  dt_overlap :: "OverlapConfig option"
  dt_speedModifier :: "number option"

record DialogueLine =
  dl_id :: string
  dl_characterId :: string
  dl_text :: string
  dl_emotion :: "EmotionProfile option"
  dl_emotionTransitions :: "EmotionTransition list option"
  dl_timing :: DialogueTiming

record ConversationGlobalSettings =
  gs_pauseBetweenLines :: number
  gs_crossfadeDuration :: number
  gs_masterVolume :: number
  gs_naturalTiming :: bool

record ConversationConfig =
  cfg_id :: string
  cfg_title :: string
  cfg_characters :: "ConversationCharacter list"
  cfg_dialogue :: "DialogueLine list"
  cfg_globalSettings :: ConversationGlobalSettings

record AudioSegment =
  as_lineId :: string
  as_startTime :: number
  as_endTime :: number
  as_text :: string
  as_emotion :: EmotionProfile
  as_audioBuffer :: Buffer

record AudioTrackResult =
  atr_characterId :: string
  atr_characterName :: string
  atr_audioBuffer :: Buffer
  atr_segments :: "AudioSegment list"
  atr_totalDuration :: number

datatype EventType =
  line_start | line_end | emotion_change | overlap_start | overlap_end
  | effect_start | effect_end

datatype EventData =
  TextData string
  | EmotionChangeData EmotionProfile EmotionProfile
  | OverlapData OverlapConfig

record TimelineEvent =
  ev_time :: number
  ev_type :: EventType
  ev_characterId :: "string option"
  ev_lineId :: "string option"
  ev_data :: "EventData option"

record ConversationTimeline =
  ct_totalDuration :: number
  ct_events :: "TimelineEvent list"
  ct_characterUsage :: "string \<rightharpoonup> number"

record MixingOptions =
  mo_enableAutomaticMixing :: bool
  mo_preserveIndividualTracks :: bool
  mo_normalizeAudio :: bool
  mo_compressionLevel :: number
  mo_spatialAudioEnabled :: bool

record ConversationGenerationRequest =
  req_config :: ConversationConfig
  req_outputFormat :: OutputFormat
  req_mixingOptions :: "MixingOptions option"

record ConversationResult =
  cr_audioTracks :: "AudioTrackResult list"
  cr_mixedAudio :: "Buffer option"
  cr_timeline :: ConversationTimeline

section \<open>Conversation manager (\<open>core/conversation-manager.ts\<close>)\<close>

definition truthyString :: "string option \<Rightarrow> bool" where
  \<comment> \<open>an optional string used as a condition: defined and not empty\<close>
  "truthyString s = (case s of None \<Rightarrow> False | Some v \<Rightarrow> v \<noteq> [])"

definition truthyNumber :: "number option \<Rightarrow> bool" where
  \<comment> \<open>an optional number used as a condition: defined and not zero\<close>
  "truthyNumber x = (case x of None \<Rightarrow> False | Some v \<Rightarrow> v \<noteq> 0)"

definition numberOr :: "number option \<Rightarrow> number \<Rightarrow> number" where
  \<comment> \<open>\<open>x || d\<close> on an optional number\<close>
  "numberOr x d = (case x of None \<Rightarrow> d | Some v \<Rightarrow> if v \<noteq> 0 then v else d)"

definition overlapEnabled :: "DialogueLine \<Rightarrow> bool" where
  \<comment> \<open>\<open>line.timing.overlap?.enabled\<close>\<close>
  "overlapEnabled line =
     (case dt_overlap (dl_timing line) of None \<Rightarrow> False | Some ov \<Rightarrow> oc_enabled ov)"

definition validateConversationConfig :: "ConversationConfig \<Rightarrow> error + unit" where
  "validateConversationConfig config =
     (if cfg_characters config = [] then
        Inl (Error ''Conversation must have at least one character'')
      else if cfg_dialogue config = [] then
        Inl (Error ''Conversation must have at least one dialogue line'')
      else
        (let characterIds = set (map cc_id (cfg_characters config))
         in case find (\<lambda>line. dl_characterId line \<notin> characterIds) (cfg_dialogue config) of
              Some line \<Rightarrow>
                Inl (Error (''Dialogue line references unknown character: '' @ dl_characterId line))
            | None \<Rightarrow>
                (let lineIds = set (map dl_id (cfg_dialogue config))
                 in case find (\<lambda>line. case dt_overlap (dl_timing line) of
                                          None \<Rightarrow> False
                                        | Some ov \<Rightarrow> truthyString (oc_targetLineId ov)
                                            \<and> the (oc_targetLineId ov) \<notin> lineIds)
                           (cfg_dialogue config) of
                      Some line \<Rightarrow>
                        Inl (Error (''Overlap target line not found: ''
                               @ the (oc_targetLineId (the (dt_overlap (dl_timing line))))))
                    | None \<Rightarrow> Inr ())))"

definition wordCount :: "string \<Rightarrow> nat" where
  "wordCount text = length (splitSpaces text)"

definition overlapStartTime :: "DialogueLine list \<Rightarrow> DialogueLine \<Rightarrow> number" where
  \<comment> \<open>the overlap step: the start time the line has after it; \<open>processed\<close> is the whole
      array, in which the line itself already carries its new timing\<close>
  "overlapStartTime processed line =
     (case dt_overlap (dl_timing line) of
        None \<Rightarrow> dt_startTime (dl_timing line)
      | Some ov \<Rightarrow>
          if oc_enabled ov \<and> truthyString (oc_targetLineId ov) then
            (case find (\<lambda>l. dl_id l = the (oc_targetLineId ov)) processed of
               Some targetLine \<Rightarrow>
                 if truthyNumber (dt_endTime (dl_timing targetLine))
                 then dt_startTime (dl_timing targetLine) + oc_overlapStart ov
                 else dt_startTime (dl_timing line)
             | None \<Rightarrow> dt_startTime (dl_timing line))
          else dt_startTime (dl_timing line))"

fun processLines ::
  "ConversationGlobalSettings \<Rightarrow> DialogueLine list \<Rightarrow> DialogueLine list \<Rightarrow> number
   \<Rightarrow> DialogueLine list" where
  \<comment> \<open>the loop of \<open>processDialogueTiming\<close> at index \<open>i = length timed\<close>: the array
      \<open>processed\<close> is \<open>timed @ todo\<close>, the lines before \<open>i\<close> are timed, the others
      are as the caller gave them\<close>
  "processLines globalSettings timed [] currentTime = timed"
| "processLines globalSettings timed (line # rest) currentTime =
     (let i = length timed;
          estimatedDuration = (of_nat (wordCount (dl_text line)) / 3) * 1000;
          pauseBefore = (case dt_pauseBefore (dl_timing line) of
                           None \<Rightarrow> (if i = 0 then 0 else gs_pauseBetweenLines globalSettings)
                         | Some p \<Rightarrow> p);
          startTime = currentTime + pauseBefore;
          endTime = (if truthyNumber (dt_speedModifier (dl_timing line))
                     then startTime + estimatedDuration / the (dt_speedModifier (dl_timing line))
                     else startTime + estimatedDuration);
          line1 = line \<lparr> dl_timing := (dl_timing line)
                    \<lparr> dt_pauseBefore := Some pauseBefore, dt_startTime := startTime,
                      dt_endTime := Some endTime \<rparr> \<rparr>;
          line2 = line1 \<lparr> dl_timing := (dl_timing line1)
                    \<lparr> dt_startTime := overlapStartTime (timed @ line1 # rest) line1 \<rparr> \<rparr>
      in processLines globalSettings (timed @ [line2]) rest
           (endTime + numberOr (dt_pauseAfter (dl_timing line)) 0))"

definition processDialogueTiming ::
  "DialogueLine list \<Rightarrow> ConversationGlobalSettings \<Rightarrow> DialogueLine list" where
  "processDialogueTiming dialogue globalSettings = processLines globalSettings [] dialogue 0"

definition lineEndTime :: "DialogueLine \<Rightarrow> number" where
  \<comment> \<open>\<open>line.timing.endTime || line.timing.startTime + 3000\<close>\<close>
  "lineEndTime line =
     numberOr (dt_endTime (dl_timing line)) (dt_startTime (dl_timing line) + 3000)"

definition emotionChangeEvents :: "DialogueLine \<Rightarrow> TimelineEvent list" where
  "emotionChangeEvents line =
     (case dl_emotionTransitions line of
        None \<Rightarrow> []
      | Some transitions \<Rightarrow>
          map (\<lambda>transition.
                 \<lparr> ev_time = dt_startTime (dl_timing line)
                               + numberOr (trig_time (triggers transition)) 0,
                   ev_type = emotion_change,
                   ev_characterId = Some (dl_characterId line),
                   ev_lineId = Some (dl_id line),
                   ev_data = Some (EmotionChangeData (fromEmotion transition)
                                     (toEmotion transition)) \<rparr>)
              transitions)"

definition overlapEvents :: "DialogueLine \<Rightarrow> TimelineEvent list" where
  "overlapEvents line =
     (case dt_overlap (dl_timing line) of
        None \<Rightarrow> []
      | Some ov \<Rightarrow>
          if oc_enabled ov then
            [\<lparr> ev_time = dt_startTime (dl_timing line), ev_type = overlap_start,
                ev_characterId = Some (dl_characterId line), ev_lineId = Some (dl_id line),
                ev_data = Some (OverlapData ov) \<rparr>,
             \<lparr> ev_time = dt_startTime (dl_timing line) + oc_overlapDuration ov,
                ev_type = overlap_end,
                ev_characterId = Some (dl_characterId line), ev_lineId = Some (dl_id line),
                ev_data = None \<rparr>]
          else [])"

definition lineEvents :: "DialogueLine \<Rightarrow> TimelineEvent list" where
  \<comment> \<open>the events one iteration of the loop pushes, in the order it pushes them\<close>
  "lineEvents line =
     [\<lparr> ev_time = dt_startTime (dl_timing line), ev_type = line_start,
         ev_characterId = Some (dl_characterId line), ev_lineId = Some (dl_id line),
         ev_data = Some (TextData (dl_text line)) \<rparr>,
      \<lparr> ev_time = lineEndTime line, ev_type = line_end,
         ev_characterId = Some (dl_characterId line), ev_lineId = Some (dl_id line),
         ev_data = None \<rparr>]
     @ emotionChangeEvents line @ overlapEvents line"

definition timelineStep ::
  "DialogueLine \<Rightarrow> TimelineEvent list \<times> (string \<rightharpoonup> number) \<times> number
   \<Rightarrow> TimelineEvent list \<times> (string \<rightharpoonup> number) \<times> number" where
  "timelineStep line st =
     (case st of (events, characterUsage, totalDuration) \<Rightarrow>
        (let endTime = lineEndTime line;
             used = endTime - dt_startTime (dl_timing line)
         in (events @ lineEvents line,
             characterUsage(dl_characterId line \<mapsto>
               numberOr (characterUsage (dl_characterId line)) 0 + used),
             max totalDuration endTime)))"

definition createConversationTimeline ::
  "DialogueLine list \<Rightarrow> AudioTrackResult list \<Rightarrow> ConversationTimeline" where
  \<comment> \<open>the stable sort of the events by time only (\<open>events.sort((a, b) => a.time - b.time)\<close>)\<close>
  "createConversationTimeline dialogue audioTracks =
     (case fold timelineStep dialogue ([], Map.empty, 0) of
        (events, characterUsage, totalDuration) \<Rightarrow>
          \<lparr> ct_totalDuration = totalDuration,
            ct_events = sort_key ev_time events,
            ct_characterUsage = characterUsage \<rparr>)"

section \<open>Audio mixer (\<open>utils/audio-mixer.ts\<close>)\<close>

record AudioProcessingOptions =
  opt_sampleRate :: nat
  opt_bitDepth :: nat
  opt_channels :: nat

definition processingOptions :: AudioProcessingOptions where
  \<comment> \<open>the mixer's defaults, the only options it ever passes on\<close>
  "processingOptions = \<lparr> opt_sampleRate = 44100, opt_bitDepth = 16, opt_channels = 2 \<rparr>"

definition bytesPerSample :: "AudioProcessingOptions \<Rightarrow> nat" where
  "bytesPerSample options = (opt_bitDepth options div 8) * opt_channels options"

definition mixChannel ::
  "Buffer \<Rightarrow> number \<Rightarrow> int \<Rightarrow> int \<Rightarrow> nat \<Rightarrow> Buffer \<Rightarrow> error + Buffer" where
  \<comment> \<open>the body of the loop over the channels\<close>
  "mixChannel segmentBuffer volume mixIndex segmentIndex channel mixBuffer =
     (let mixByteIndex = mixIndex + int channel * 2;
          segmentByteIndex = segmentIndex + int channel * 2
      in case readInt16LE mixBuffer mixByteIndex of
           Inl e \<Rightarrow> Inl e
         | Inr mixValue \<Rightarrow>
             (case readInt16LE segmentBuffer segmentByteIndex of
                Inl e \<Rightarrow> Inl e
              | Inr segmentValue \<Rightarrow>
                  (let scaledSegmentValue = Math_round (of_int segmentValue * volume);
                       mixedValue = mixValue + scaledSegmentValue;
                       clipped = max (- 32768) (min 32767 mixedValue)
                   in writeInt16LE mixBuffer clipped mixByteIndex)))"

definition mixFrame ::
  "Buffer \<Rightarrow> int \<Rightarrow> number \<Rightarrow> AudioProcessingOptions \<Rightarrow> nat \<Rightarrow> Buffer \<Rightarrow> error + Buffer" where
  \<comment> \<open>the body of the loop over the sample index \<open>i\<close>\<close>
  "mixFrame segmentBuffer startSample volume options i mixBuffer =
     (let mixIndex = (startSample + int i) * int (bytesPerSample options);
          segmentIndex = int i * int (bytesPerSample options)
      in if mixIndex + int (bytesPerSample options) \<le> int (length mixBuffer)
            \<and> segmentIndex + int (bytesPerSample options) \<le> int (length segmentBuffer)
         then foldE (mixChannel segmentBuffer volume mixIndex segmentIndex)
                [0..<opt_channels options] mixBuffer
         else Inr mixBuffer)"

definition mixAudioSegmentIntoBuffer ::
  "Buffer \<Rightarrow> Buffer \<Rightarrow> int \<Rightarrow> number \<Rightarrow> AudioProcessingOptions \<Rightarrow> error + Buffer" where
  \<comment> \<open>\<open>i\<close> runs from 0 while \<open>i < segmentSamples && startSample + i < mixBufferSamples\<close>;
      the result is the mix buffer after the writes\<close>
  "mixAudioSegmentIntoBuffer segmentBuffer mixBuffer startSample volume options =
     (let segmentSamples = length segmentBuffer div bytesPerSample options;
          mixBufferSamples = length mixBuffer div bytesPerSample options
      in foldE (mixFrame segmentBuffer startSample volume options)
           (takeWhile (\<lambda>i. startSample + int i < int mixBufferSamples) [0..<segmentSamples])
           mixBuffer)"

definition eventVolumeReduction :: "TimelineEvent \<Rightarrow> number" where
  \<comment> \<open>\<open>overlapEvent.data?.volumeReduction || 0.3\<close>\<close>
  "eventVolumeReduction ev =
     (case ev_data ev of
        Some (OverlapData ov) \<Rightarrow> numberOr (Some (oc_volumeReduction ov)) (3 / 10)
      | _ \<Rightarrow> 3 / 10)"

definition mixSegment ::
  "TimelineEvent list \<Rightarrow> AudioProcessingOptions \<Rightarrow> AudioSegment \<Rightarrow> Buffer \<Rightarrow> error + Buffer" where
  \<comment> \<open>the body of the loop over the segments of a track\<close>
  "mixSegment characterEvents options segment mixBuffer =
     (let startTimeMs = as_startTime segment;
          endTimeMs = as_endTime segment;
          startSample = Math_floor ((startTimeMs / 1000) * of_nat (opt_sampleRate options));
          overlappingEvents =
            filter (\<lambda>ev. ev_time ev \<ge> startTimeMs \<and> ev_time ev \<le> endTimeMs
                         \<and> ev_type ev = overlap_start) characterEvents;
          volume = (case overlappingEvents of
                      [] \<Rightarrow> 1
                    | overlapEvent # _ \<Rightarrow> 1 - eventVolumeReduction overlapEvent)
      in mixAudioSegmentIntoBuffer (as_audioBuffer segment) mixBuffer startSample volume options)"

definition mixTrackIntoBuffer ::
  "AudioTrackResult \<Rightarrow> ConversationTimeline \<Rightarrow> AudioProcessingOptions \<Rightarrow> MixingOptions
   \<Rightarrow> Buffer \<Rightarrow> error + Buffer" where
  "mixTrackIntoBuffer track timeline options mixingOptions mixBuffer =
     (let characterEvents =
            filter (\<lambda>ev. ev_characterId ev = Some (atr_characterId track)) (ct_events timeline)
      in foldE (mixSegment characterEvents options) (atr_segments track) mixBuffer)"

definition forEachSample ::
  "Buffer \<Rightarrow> AudioProcessingOptions \<Rightarrow> (nat \<Rightarrow> 's \<Rightarrow> error + 's) \<Rightarrow> 's \<Rightarrow> error + 's" where
  \<comment> \<open>the nested loops that \<open>normalizeAudio\<close> (twice) and \<open>applyCompression\<close> run over
      a buffer: \<open>body\<close> is run at every \<open>byteIndex\<close> with \<open>byteIndex + 1 < buffer.length\<close>\<close>
  "forEachSample buffer options body s =
     (let totalSamples = length buffer div bytesPerSample options
      in foldE (\<lambda>i. foldE (\<lambda>channel st.
                   (let byteIndex = i * bytesPerSample options + channel * 2
                    in if byteIndex + 1 < length buffer then body byteIndex st else Inr st))
                 [0..<opt_channels options])
           [0..<totalSamples] s)"

definition findPeak :: "Buffer \<Rightarrow> AudioProcessingOptions \<Rightarrow> error + int" where
  "findPeak buffer options =
     forEachSample buffer options
       (\<lambda>byteIndex peak.
          case readInt16LE buffer (int byteIndex) of
            Inl e \<Rightarrow> Inl e
          | Inr v \<Rightarrow> Inr (max peak \<bar>v\<bar>))
       0"

definition maxValue :: number where
  \<comment> \<open>\<open>32767 * 0.95\<close>, the product of two doubles\<close>
  "maxValue = fl (32767 * fl (95 / 100))"

definition normalizationFactor :: "int \<Rightarrow> number" where
  \<comment> \<open>\<open>maxValue / peak\<close>\<close>
  "normalizationFactor peak = fl (maxValue / of_int peak)"

definition normalizedSample :: "number \<Rightarrow> int \<Rightarrow> int" where
  \<comment> \<open>\<open>Math.round(sample * normalizationFactor)\<close>\<close>
  "normalizedSample factor sample = Math_round (fl (of_int sample * factor))"

definition normalizeAudio :: "Buffer \<Rightarrow> AudioProcessingOptions \<Rightarrow> error + Buffer" where
  "normalizeAudio buffer options =
     (case findPeak buffer options of
        Inl e \<Rightarrow> Inl e
      | Inr peak \<Rightarrow>
          if peak = 0 then Inr buffer
          else
            (let factor = normalizationFactor peak
             in case Buffer_alloc (int (length buffer)) of
                  Inl e \<Rightarrow> Inl e
                | Inr normalizedBuffer \<Rightarrow>
                    forEachSample buffer options
                      (\<lambda>byteIndex out.
                         case readInt16LE buffer (int byteIndex) of
                           Inl e \<Rightarrow> Inl e
                         | Inr sample \<Rightarrow>
                             (let clampedSample =
                                    max (- 32768) (min 32767 (normalizedSample factor sample))
                              in writeInt16LE out clampedSample (int byteIndex)))
                      normalizedBuffer))"

definition applyCompression ::
  "Buffer \<Rightarrow> number \<Rightarrow> AudioProcessingOptions \<Rightarrow> error + Buffer" where
  "applyCompression buffer compressionLevel options =
     (let threshold = 32767 * (1 - compressionLevel);
          ratio = 1 + compressionLevel * 3
      in case Buffer_alloc (int (length buffer)) of
           Inl e \<Rightarrow> Inl e
         | Inr compressedBuffer \<Rightarrow>
             forEachSample buffer options
               (\<lambda>byteIndex out.
                  case readInt16LE buffer (int byteIndex) of
                    Inl e \<Rightarrow> Inl e
                  | Inr sample \<Rightarrow>
                      (let absSample = \<bar>of_int sample :: number\<bar>;
                           compressedSample =
                             (if absSample > threshold then
                                (let overage = absSample - threshold;
                                     compressedOverage = overage / ratio;
                                     sgn = (if sample \<ge> 0 then 1 else - 1)
                                 in sgn * (threshold + compressedOverage))
                              else of_int sample);
                           clampedSample =
                             max (- 32768) (min 32767 (Math_round compressedSample))
                       in writeInt16LE out clampedSample (int byteIndex)))
               compressedBuffer)"

definition applySpatialAudio ::
  "Buffer \<Rightarrow> AudioTrackResult list \<Rightarrow> AudioProcessingOptions \<Rightarrow> Buffer" where
  \<comment> \<open>a placeholder in the source: the buffer itself on other than two channels, a copy
      of it otherwise\<close>
  "applySpatialAudio buffer tracks options = buffer"

definition mixConversation ::
  "AudioTrackResult list \<Rightarrow> ConversationTimeline \<Rightarrow> MixingOptions \<Rightarrow> error + Buffer" where
  "mixConversation tracks timeline options =
     (if tracks = [] then Inl (Error ''No audio tracks to mix'')
      else
        (let totalDurationMs = ct_totalDuration timeline;
             totalSamples =
               Math_ceil ((totalDurationMs / 1000) * of_nat (opt_sampleRate processingOptions))
         in case Buffer_alloc (totalSamples * int (bytesPerSample processingOptions)) of
              Inl e \<Rightarrow> Inl e
            | Inr mixBuffer \<Rightarrow>
                (case foldE (\<lambda>track. mixTrackIntoBuffer track timeline processingOptions options)
                        tracks mixBuffer of
                   Inl e \<Rightarrow> Inl e
                 | Inr mixed \<Rightarrow>
                     (case (if mo_normalizeAudio options
                            then normalizeAudio mixed processingOptions else Inr mixed) of
                        Inl e \<Rightarrow> Inl e
                      | Inr normalized \<Rightarrow>
                          (case (if mo_compressionLevel options > 0
                                 then applyCompression normalized (mo_compressionLevel options)
                                        processingOptions
                                 else Inr normalized) of
                             Inl e \<Rightarrow> Inl e
                           | Inr compressed \<Rightarrow>
                               Inr (if mo_spatialAudioEnabled options
                                    then applySpatialAudio compressed tracks processingOptions
                                    else compressed))))))"

section \<open>Character manager and conversation generation\<close>

text \<open>
  \<open>VoiceEngine.generateVoice\<close> calls the remote speech providers: it is the parameter
  \<open>generateVoice\<close>. The character manager's map of registered characters is the
  parameter \<open>registered\<close>.
\<close>

definition validateCharacter ::
  "(string \<rightharpoonup> ConversationCharacter) \<Rightarrow> ConversationCharacter \<Rightarrow> error + unit" where
  "validateCharacter registered character =
     (if cc_id character = [] \<or> cc_name character = [] then
        Inl (Error ''Character must have id and name'')
      else if registered (cc_id character) \<noteq> None then
        Inl (Error (''Character with id '' @ [CHR 0x22] @ cc_id character @ [CHR 0x22]
                    @ '' already exists''))
      else Inr ())"

definition addCharacter ::
  "ConversationCharacter \<Rightarrow> (string \<rightharpoonup> ConversationCharacter)
   \<Rightarrow> error + (string \<rightharpoonup> ConversationCharacter)" where
  "addCharacter character registered =
     (case validateCharacter registered character of
        Inl e \<Rightarrow> Inl e
      | Inr _ \<Rightarrow> Inr (registered(cc_id character \<mapsto> character)))"

definition initializeCharacters ::
  "ConversationCharacter list \<Rightarrow> (string \<rightharpoonup> ConversationCharacter)
   \<Rightarrow> error + (string \<rightharpoonup> ConversationCharacter)" where
  "initializeCharacters characters registered = foldE addCharacter characters registered"

definition lineRequest ::
  "ConversationCharacter \<Rightarrow> OutputFormat \<Rightarrow> DialogueLine \<Rightarrow> GenerationRequest" where
  "lineRequest character outputFormat line =
     \<lparr> gr_text = dl_text line,
       gr_voiceProfile = Some (cc_voiceProfile character),
       gr_modulation =
         (case dl_emotion line of
            None \<Rightarrow> None
          | Some emotion \<Rightarrow>
              Some \<lparr> vm_emotion = emotion,
                     vm_speed = numberOr (dt_speedModifier (dl_timing line)) 1,
                     vm_pitch = 0, vm_volume = 1, vm_emphasis = [], vm_pauses = [] \<rparr>),
       gr_outputFormat = outputFormat,
       gr_emotionTransitions = dl_emotionTransitions line \<rparr>"

definition lineSegment ::
  "(GenerationRequest \<Rightarrow> error + Buffer) \<Rightarrow> ConversationCharacter \<Rightarrow> OutputFormat
   \<Rightarrow> DialogueLine \<Rightarrow> AudioSegment list \<Rightarrow> error + AudioSegment list" where
  \<comment> \<open>the body of the loop over the lines of a character\<close>
  "lineSegment generateVoice character outputFormat line segments =
     (case generateVoice (lineRequest character outputFormat line) of
        Inl e \<Rightarrow> Inl e
      | Inr audioBuffer \<Rightarrow>
          Inr (segments @
               [\<lparr> as_lineId = dl_id line,
                   as_startTime = dt_startTime (dl_timing line),
                   as_endTime = lineEndTime line,
                   as_text = dl_text line,
                   as_emotion = (case dl_emotion line of
                                   Some emotion \<Rightarrow> emotion
                                 | None \<Rightarrow> cc_defaultEmotion character),
                   as_audioBuffer = audioBuffer \<rparr>]))"

definition characterTrack ::
  "(GenerationRequest \<Rightarrow> error + Buffer) \<Rightarrow> DialogueLine list \<Rightarrow> OutputFormat
   \<Rightarrow> ConversationCharacter \<Rightarrow> AudioTrackResult list \<Rightarrow> error + AudioTrackResult list" where
  \<comment> \<open>the body of the loop over the characters\<close>
  "characterTrack generateVoice dialogue outputFormat character tracks =
     (let lines = filter (\<lambda>line. dl_characterId line = cc_id character) dialogue
      in if lines = [] then Inr tracks
         else (case foldE (lineSegment generateVoice character outputFormat) lines [] of
                 Inl e \<Rightarrow> Inl e
               | Inr segments \<Rightarrow>
                   Inr (tracks @
                        [\<lparr> atr_characterId = cc_id character,
                            atr_characterName = cc_name character,
                            atr_audioBuffer = concat (map as_audioBuffer segments),
                            atr_segments = segments,
                            atr_totalDuration =
                              fold (\<lambda>seg total. max total (as_endTime seg)) segments 0 \<rparr>])))"

definition generateCharacterAudioTracks ::
  "(GenerationRequest \<Rightarrow> error + Buffer) \<Rightarrow> DialogueLine list \<Rightarrow> ConversationCharacter list
   \<Rightarrow> OutputFormat \<Rightarrow> error + AudioTrackResult list" where
  "generateCharacterAudioTracks generateVoice dialogue characters outputFormat =
     foldE (characterTrack generateVoice dialogue outputFormat) characters []"

definition automaticMixing :: "MixingOptions option \<Rightarrow> bool" where
  \<comment> \<open>\<open>request.mixingOptions?.enableAutomaticMixing\<close>\<close>
  "automaticMixing mixingOptions =
     (case mixingOptions of None \<Rightarrow> False | Some opts \<Rightarrow> mo_enableAutomaticMixing opts)"

definition generateConversation ::
  "(GenerationRequest \<Rightarrow> error + Buffer) \<Rightarrow> (string \<rightharpoonup> ConversationCharacter)
   \<Rightarrow> ConversationGenerationRequest \<Rightarrow> error + ConversationResult" where
  "generateConversation generateVoice registered request =
     (let config = req_config request
      in case validateConversationConfig config of
           Inl e \<Rightarrow> Inl e
         | Inr _ \<Rightarrow>
             (case initializeCharacters (cfg_characters config) registered of
                Inl e \<Rightarrow> Inl e
              | Inr _ \<Rightarrow>
                  (let processedDialogue =
                         processDialogueTiming (cfg_dialogue config) (cfg_globalSettings config)
                   in case generateCharacterAudioTracks generateVoice processedDialogue
                             (cfg_characters config) (req_outputFormat request) of
                        Inl e \<Rightarrow> Inl e
                      | Inr audioTracks \<Rightarrow>
                          (let timeline = createConversationTimeline processedDialogue audioTracks
                           in if automaticMixing (req_mixingOptions request) then
                                (case mixConversation audioTracks timeline
                                        (the (req_mixingOptions request)) of
                                   Inl e \<Rightarrow> Inl e
                                 | Inr mixedAudio \<Rightarrow>
                                     Inr \<lparr> cr_audioTracks = audioTracks,
                                           cr_mixedAudio = Some mixedAudio,
                                           cr_timeline = timeline \<rparr>)
                              else Inr \<lparr> cr_audioTracks = audioTracks,
                                         cr_mixedAudio = None,
                                         cr_timeline = timeline \<rparr>))))"

section \<open>Regular expressions\<close>

text \<open>
  The subtitle reader matches its input against regular expression literals. They are
  modelled as terms of the type \<open>regex\<close>, run by a backtracking matcher that lists the
  ways a pattern can match at the start of a string in the order in which the runtime
  tries them: the first one is the match it reports. A repetition applies to a character
  class, which is all that the patterns of the reader use.
\<close>

datatype regex =
  Class "char \<Rightarrow> bool"
  | Str string
  | Rep "char \<Rightarrow> bool" nat "nat option" bool
  | Seq "regex list"
  | Group regex

fun matches :: "regex \<Rightarrow> string \<Rightarrow> (string list \<times> string) list"
  and matchesSeq :: "regex list \<Rightarrow> string \<Rightarrow> (string list \<times> string) list" where
  "matches (Class p) s = (case s of [] \<Rightarrow> [] | c # cs \<Rightarrow> if p c then [([], cs)] else [])"
| "matches (Str lit) s = (if startsWith s lit then [([], drop (length lit) s)] else [])"
| "matches (Rep p lo hi greedy) s =
     (let run = length (takeWhile p s);
          most = (case hi of None \<Rightarrow> run | Some h \<Rightarrow> min h run);
          counts = (if greedy then rev [lo..<Suc most] else [lo..<Suc most])
      in map (\<lambda>n. ([], drop n s)) counts)"
| "matches (Seq rs) s = matchesSeq rs s"
| "matches (Group r) s =
     map (\<lambda>(caps, rest). (take (length s - length rest) s # caps, rest)) (matches r s)"
| "matchesSeq [] s = [([], s)]"
| "matchesSeq (r # rs) s =
     concat (map (\<lambda>(caps, rest).
                    map (\<lambda>(caps', rest'). (caps @ caps', rest')) (matchesSeq rs rest))
               (matches r s))"

record RegExpMatch =
  m_index :: nat
  m_text :: string
  m_groups :: "string list"

definition execAt :: "regex \<Rightarrow> nat \<Rightarrow> string \<Rightarrow> RegExpMatch option" where
  \<comment> \<open>the match of the pattern at the start of \<open>s\<close>, which is at index \<open>i\<close> of the
      string searched\<close>
  "execAt r i s =
     (case matches r s of
        [] \<Rightarrow> None
      | (caps, rest) # _ \<Rightarrow>
          Some \<lparr> m_index = i, m_text = take (length s - length rest) s, m_groups = caps \<rparr>)"

fun searchFrom :: "regex \<Rightarrow> nat \<Rightarrow> string \<Rightarrow> RegExpMatch option" where
  \<comment> \<open>\<open>s.match(r)\<close> without the \<open>g\<close> flag: the leftmost match\<close>
  "searchFrom r i [] = execAt r i []"
| "searchFrom r i (c # cs) =
     (case execAt r i (c # cs) of
        Some m \<Rightarrow> Some m
      | None \<Rightarrow> searchFrom r (Suc i) cs)"

fun removeAll :: "regex \<Rightarrow> nat \<Rightarrow> string \<Rightarrow> string" where
  \<comment> \<open>\<open>s.replace(r, '')\<close> with the \<open>g\<close> flag; \<open>skip\<close> counts the characters of the
      current match that are still to be dropped\<close>
  "removeAll r skip [] = []"
| "removeAll r skip (c # cs) =
     (if skip > 0 then removeAll r (skip - 1) cs
      else (case execAt r 0 (c # cs) of
              None \<Rightarrow> c # removeAll r 0 cs
            | Some m \<Rightarrow>
                if m_text m = [] then c # removeAll r 0 cs
                else removeAll r (length (m_text m) - 1) cs))"

fun splitRegex :: "regex \<Rightarrow> nat \<Rightarrow> string \<Rightarrow> string \<Rightarrow> string list" where
  \<comment> \<open>\<open>s.split(r)\<close>; \<open>cur\<close> is the piece collected since the last separator\<close>
  "splitRegex r skip cur [] = [cur]"
| "splitRegex r skip cur (c # cs) =
     (if skip > 0 then splitRegex r (skip - 1) cur cs
      else (case execAt r 0 (c # cs) of
              None \<Rightarrow> splitRegex r 0 (cur @ [c]) cs
            | Some m \<Rightarrow>
                if m_text m = [] then splitRegex r 0 (cur @ [c]) cs
                else cur # splitRegex r (length (m_text m) - 1) [] cs))"

fun splitChar :: "char \<Rightarrow> string \<Rightarrow> string \<Rightarrow> string list" where
  \<comment> \<open>\<open>s.split(sep)\<close> for a separator of one character\<close>
  "splitChar sep cur [] = [cur]"
| "splitChar sep cur (c # cs) =
     (if c = sep then cur # splitChar sep [] cs else splitChar sep (cur @ [c]) cs)"

fun join :: "string \<Rightarrow> string list \<Rightarrow> string" where
  "join sep [] = []"
| "join sep [x] = x"
| "join sep (x # y # ys) = x @ sep @ join sep (y # ys)"

definition digitValue :: "char \<Rightarrow> int" where
  "digitValue c = int (of_char c) - 48"

definition parseInt :: "string \<Rightarrow> int option" where
  \<comment> \<open>\<open>parseInt(s, 10)\<close>: leading whitespace, an optional sign, then the longest run of
      decimal digits; \<open>None\<close> stands for \<open>NaN\<close>\<close>
  "parseInt s =
     (let t = dropWhile isSpace s;
          negative = (t \<noteq> [] \<and> hd t = CHR ''-'');
          u = (if t \<noteq> [] \<and> (hd t = CHR ''-'' \<or> hd t = CHR ''+'') then tl t else t);
          digits = takeWhile isDigit u
      in if digits = [] then None
         else (let n = foldl (\<lambda>acc c. acc * 10 + digitValue c) 0 digits
               in Some (if negative then - n else n)))"

section \<open>Subtitle reader (class \<open>SubtitleReader\<close>)\<close>

record SubtitleEmotion =
  se_primary :: string
  se_intensity :: number
  se_confidence :: number

record SubtitleEntry =
  sub_index :: int
  sub_startTime :: "number option"
  sub_endTime :: "number option"
  sub_startTimecode :: string
  sub_endTimecode :: string
  sub_text :: string
  sub_speaker :: "string option"
  sub_emotion :: "SubtitleEmotion option"

record TextAnnotations =
  ta_cleanText :: string
  ta_speaker :: "string option"
  ta_emotion :: "SubtitleEmotion option"

definition blankLineRegex :: regex where
  \<comment> \<open>\<open>/\n\s*\n/\<close>\<close>
  "blankLineRegex = Seq [Str [CHR 0x0A], Rep isSpace 0 None True, Str [CHR 0x0A]]"

definition srtTimeRegex :: regex where
  \<comment> \<open>\<open>/(\d{2}):(\d{2}):(\d{2}),(\d{3})\s*-->\s*(\d{2}):(\d{2}):(\d{2}),(\d{3})/\<close>\<close>
  "srtTimeRegex =
     Seq [Group (Rep isDigit 2 (Some 2) True), Str '':'',
          Group (Rep isDigit 2 (Some 2) True), Str '':'',
          Group (Rep isDigit 2 (Some 2) True), Str '','',
          Group (Rep isDigit 3 (Some 3) True),
          Rep isSpace 0 None True, Str ''-->'', Rep isSpace 0 None True,
          Group (Rep isDigit 2 (Some 2) True), Str '':'',
          Group (Rep isDigit 2 (Some 2) True), Str '':'',
          Group (Rep isDigit 2 (Some 2) True), Str '','',
          Group (Rep isDigit 3 (Some 3) True)]"

definition speakerRegex :: regex where
  \<comment> \<open>\<open>/^([A-Z][^:]*?):\s*(.+)/s\<close>, matched at the start of the text only; with the
      \<open>s\<close> flag the dot matches every character\<close>
  "speakerRegex =
     Seq [Group (Seq [Class isUpper, Rep (\<lambda>c. c \<noteq> CHR '':'') 0 None False]), Str '':'',
          Rep isSpace 0 None True, Group (Rep (\<lambda>c. True) 1 None True)]"

definition isLetter :: "char \<Rightarrow> bool" where
  \<comment> \<open>\<open>[a-z]\<close> under the \<open>i\<close> flag\<close>
  "isLetter c = (isLower c \<or> isUpper c)"

definition emotionRegex :: regex where
  \<comment> \<open>\<open>/\[([a-z]+)\]/i\<close>\<close>
  "emotionRegex = Seq [Str ''['', Group (Rep isLetter 1 None True), Str '']'']"

definition bracketRegex :: regex where
  \<comment> \<open>\<open>/\[[a-z]+\]/gi\<close>\<close>
  "bracketRegex = Seq [Str ''['', Rep isLetter 1 None True, Str '']'']"

definition htmlTagRegex :: regex where
  \<comment> \<open>\<open>/<[^>]*>/g\<close>\<close>
  "htmlTagRegex = Seq [Str ''<'', Rep (\<lambda>c. c \<noteq> CHR ''>'') 0 None True, Str ''>'']"

definition styleTagRegex :: regex where
  \<comment> \<open>\<open>/\{[^}]*\}/g\<close>\<close>
  "styleTagRegex = Seq [Str ''{'', Rep (\<lambda>c. c \<noteq> CHR ''}'') 0 None True, Str ''}'']"

definition parseTimeToSeconds ::
  "int option \<Rightarrow> int option \<Rightarrow> int option \<Rightarrow> int option \<Rightarrow> number option" where
  \<comment> \<open>arithmetic on \<open>NaN\<close> gives \<open>NaN\<close>\<close>
  "parseTimeToSeconds hours minutes seconds milliseconds =
     (case (hours, minutes, seconds, milliseconds) of
        (Some h, Some m, Some s, Some ms) \<Rightarrow>
          Some (of_int h * 3600 + of_int m * 60 + of_int s + of_int ms / 1000)
      | _ \<Rightarrow> None)"

definition truncate :: "number \<Rightarrow> int" where
  "truncate x = (if x \<ge> 0 then \<lfloor>x\<rfloor> else \<lceil>x\<rceil>)"

definition remainder :: "number \<Rightarrow> number \<Rightarrow> number" where
  \<comment> \<open>the operator \<open>%\<close>: the remainder has the sign of the dividend\<close>
  "remainder x m = x - m * of_int (truncate (x / m))"

fun digitsOf :: "nat \<Rightarrow> nat \<Rightarrow> string" where
  \<comment> \<open>the decimal digits of \<open>n\<close>; \<open>fuel\<close> bounds their number\<close>
  "digitsOf 0 n = []"
| "digitsOf (Suc fuel) n =
     (if n < 10 then [char_of (48 + n)]
      else digitsOf fuel (n div 10) @ [char_of (48 + n mod 10)])"

definition toString :: "int \<Rightarrow> string" where
  \<comment> \<open>\<open>n.toString()\<close> for an integer\<close>
  "toString n =
     (if n < 0 then CHR ''-'' # digitsOf (Suc (nat (- n))) (nat (- n))
      else digitsOf (Suc (nat n)) (nat n))"

definition padStart :: "nat \<Rightarrow> char \<Rightarrow> string \<Rightarrow> string" where
  "padStart n c s = replicate (n - length s) c @ s"

definition secondsToTimecode :: "number option \<Rightarrow> string" where
  "secondsToTimecode secondsOpt =
     (case secondsOpt of
        None \<Rightarrow> ''NaN:NaN:NaN:NaN''
      | Some seconds \<Rightarrow>
          (let hours = Math_floor (seconds / 3600);
               minutes = Math_floor (remainder seconds 3600 / 60);
               secs = Math_floor (remainder seconds 60);
               frames = Math_floor (remainder seconds 1 * 25)
           in padStart 2 CHR ''0'' (toString hours) @ '':''
              @ padStart 2 CHR ''0'' (toString minutes) @ '':''
              @ padStart 2 CHR ''0'' (toString secs) @ '':''
              @ padStart 2 CHR ''0'' (toString frames)))"

definition parseTextAnnotations :: "string \<Rightarrow> TextAnnotations" where
  "parseTextAnnotations text =
     (let speakerMatch = execAt speakerRegex 0 text;
          speaker = (case speakerMatch of
                       None \<Rightarrow> None
                     | Some m \<Rightarrow> Some (trim (m_groups m ! 0)));
          cleanText1 = (case speakerMatch of
                          None \<Rightarrow> text
                        | Some m \<Rightarrow> trim (m_groups m ! 1));
          emotionMatch = searchFrom emotionRegex 0 cleanText1;
          emotion = (case emotionMatch of
                       None \<Rightarrow> None
                     | Some m \<Rightarrow>
                         Some \<lparr> se_primary = toLowerCase (m_groups m ! 0),
                                se_intensity = 7 / 10, se_confidence = 8 / 10 \<rparr>);
          cleanText2 = (case emotionMatch of
                          None \<Rightarrow> cleanText1
                        | Some m \<Rightarrow> trim (removeAll bracketRegex 0 cleanText1));
          cleanText3 = trim (removeAll styleTagRegex 0 (removeAll htmlTagRegex 0 cleanText2))
      in \<lparr> ta_cleanText = cleanText3, ta_speaker = speaker, ta_emotion = emotion \<rparr>)"

definition parseSRTBlock :: "string \<Rightarrow> SubtitleEntry option" where
  \<comment> \<open>the body of the loop over the blocks: \<open>None\<close> where it runs \<open>continue\<close>\<close>
  "parseSRTBlock block =
     (let lines = map trim (splitChar (CHR 0x0A) [] block)
      in if length lines < 3 then None
         else (case parseInt (lines ! 0) of
                 None \<Rightarrow> None
               | Some index \<Rightarrow>
                   (let timeLine = lines ! 1;
                        textLines = drop 2 lines
                    in case searchFrom srtTimeRegex 0 timeLine of
                         None \<Rightarrow> None
                       | Some timeMatch \<Rightarrow>
                           (let g = m_groups timeMatch;
                                startTime = parseTimeToSeconds
                                  (parseInt (g ! 0)) (parseInt (g ! 1))
                                  (parseInt (g ! 2)) (parseInt (g ! 3));
                                endTime = parseTimeToSeconds
                                  (parseInt (g ! 4)) (parseInt (g ! 5))
                                  (parseInt (g ! 6)) (parseInt (g ! 7));
                                text = join [CHR 0x0A] textLines;
                                ann = parseTextAnnotations text
                            in Some \<lparr> sub_index = index,
                                      sub_startTime = startTime,
                                      sub_endTime = endTime,
                                      sub_startTimecode = secondsToTimecode startTime,
                                      sub_endTimecode = secondsToTimecode endTime,
                                      sub_text = ta_cleanText ann,
                                      sub_speaker = ta_speaker ann,
                                      sub_emotion = ta_emotion ann \<rparr>))))"

definition parseSRT :: "string \<Rightarrow> SubtitleEntry list" where
  \<comment> \<open>the \<open>entries\<close> of the track returned\<close>
  "parseSRT content =
     (let blocks = filter (\<lambda>block. trim block \<noteq> []) (splitRegex blankLineRegex 0 [] content)
      in List.map_filter parseSRTBlock blocks)"

section \<open>Reference definitions\<close>






definition spec_eventKindPriority :: "EventType \<Rightarrow> nat" where
  \<comment> \<open>the priority order of the specification's event log; the two effect events, which
      it does not rank, come last\<close>
  "spec_eventKindPriority k =
     (case k of line_start \<Rightarrow> 0 | overlap_start \<Rightarrow> 1 | emotion_change \<Rightarrow> 2
      | overlap_end \<Rightarrow> 3 | line_end \<Rightarrow> 4 | effect_start \<Rightarrow> 5 | effect_end \<Rightarrow> 5)"

definition spec_sortedByTimeAndPriority :: "TimelineEvent list \<Rightarrow> bool" where
  "spec_sortedByTimeAndPriority events =
     sorted_wrt (\<lambda>a b. ev_time a < ev_time b
                   \<or> (ev_time a = ev_time b
                       \<and> spec_eventKindPriority (ev_type a)
                           \<le> spec_eventKindPriority (ev_type b)))
       events"

section \<open>Proof auxiliaries\<close>

definition sampleOffsets :: "nat \<Rightarrow> nat list" where
  \<comment> \<open>the byte indices that the nested loops visit in a stereo 16-bit buffer of
      \<open>totalSamples\<close> frames, in the order of the visits\<close>
  "sampleOffsets totalSamples = concat (map (\<lambda>i. [i * 4, i * 4 + 2]) [0..<totalSamples])"

section \<open>Example inputs\<close>

definition exampleEmotion :: EmotionProfile where
  "exampleEmotion = \<lparr> type = neutral, intensity = 1 / 2, variations = [] \<rparr>"

definition exampleCharacter :: "string \<Rightarrow> ConversationCharacter" where
  "exampleCharacter name =
     \<lparr> cc_id = name, cc_name = name,
       cc_voiceProfile =
         \<lparr> vp_id = name, vp_name = name, vp_provider = ''elevenlabs'', vp_baseVoiceId = name,
           vp_characteristics = parseVoicePrompt ''neutral voice'' \<rparr>,
       cc_defaultEmotion = exampleEmotion \<rparr>"

definition exampleLine :: "string \<Rightarrow> string \<Rightarrow> string \<Rightarrow> number option \<Rightarrow> DialogueLine" where
  \<comment> \<open>a line with nothing but its text and, possibly, an explicit pause before it\<close>
  "exampleLine lineId characterId text pauseBefore =
     \<lparr> dl_id = lineId, dl_characterId = characterId, dl_text = text,
       dl_emotion = None, dl_emotionTransitions = None,
       dl_timing = \<lparr> dt_startTime = 0, dt_endTime = None, dt_pauseBefore = pauseBefore,
                     dt_pauseAfter = None, dt_overlap = None, dt_speedModifier = None \<rparr> \<rparr>"

definition exampleSettings :: ConversationGlobalSettings where
  "exampleSettings =
     \<lparr> gs_pauseBetweenLines = 500, gs_crossfadeDuration = 200, gs_masterVolume = 1,
       gs_naturalTiming = True \<rparr>"

definition exampleRequest :: "DialogueLine list \<Rightarrow> ConversationGenerationRequest" where
  "exampleRequest dialogue =
     \<lparr> req_config =
         \<lparr> cfg_id = ''c'', cfg_title = ''t'',
           cfg_characters = [exampleCharacter ''A'', exampleCharacter ''B''],
           cfg_dialogue = dialogue, cfg_globalSettings = exampleSettings \<rparr>,
       req_outputFormat = wav, req_mixingOptions = None \<rparr>"

definition emptyRequest :: ConversationGenerationRequest where
  \<comment> \<open>a request with no characters and no lines\<close>
  "emptyRequest =
     \<lparr> req_config =
         \<lparr> cfg_id = ''c'', cfg_title = ''t'', cfg_characters = [], cfg_dialogue = [],
           cfg_globalSettings = exampleSettings \<rparr>,
       req_outputFormat = wav, req_mixingOptions = None \<rparr>"

definition silentVoice :: "GenerationRequest \<Rightarrow> error + Buffer" where
  \<comment> \<open>a voice engine that answers every request with an empty buffer\<close>
  "silentVoice request = Inr []"



definition pausedLines :: "DialogueLine list" where
  \<comment> \<open>two lines of three words, the first with a pause of 300 ms after it\<close>
  "pausedLines =
     [(exampleLine ''A1'' ''A'' ''one two three'' None)
        \<lparr> dl_timing := \<lparr> dt_startTime = 0, dt_endTime = None, dt_pauseBefore = None,
                          dt_pauseAfter = Some 300, dt_overlap = None,
                          dt_speedModifier = None \<rparr> \<rparr>,
      exampleLine ''B1'' ''B'' ''four five six'' None]"

definition backToBack :: "DialogueLine list" where
  "backToBack =
     [exampleLine ''A1'' ''A'' ''one two three'' None,
      exampleLine ''B1'' ''B'' ''four five six'' (Some 0)]"

definition noMarkerSearch :: markerSearch where
  \<comment> \<open>a search that finds no marker\<close>
  "noMarkerSearch m text = Inr None"

definition invalidTransition :: EmotionTransition where
  \<comment> \<open>the invalid transition of the repository's test of \<open>validateTransition\<close>\<close>
  "invalidTransition =
     \<lparr> tr_id = None,
       fromEmotion = \<lparr> type = neutral, intensity = 1 / 2, variations = [] \<rparr>,
       toEmotion = \<lparr> type = neutral, intensity = 51 / 100, variations = [] \<rparr>,
       duration = 100, tr_curve = Linear,
       triggers = \<lparr> trig_word = Some ''test'', trig_time = None, trig_marker = None,
                    trig_position = None \<rparr>,
       tr_controlPoints = None \<rparr>"

definition thresholdTransition :: EmotionTransition where
  \<comment> \<open>a transition of 1000 ms from intensity 0.5 to intensity 0.6\<close>
  "thresholdTransition =
     \<lparr> tr_id = None,
       fromEmotion = \<lparr> type = neutral, intensity = 5 / 10, variations = [] \<rparr>,
       toEmotion = \<lparr> type = happy, intensity = 6 / 10, variations = [] \<rparr>,
       duration = 1000, tr_curve = Linear,
       triggers = \<lparr> trig_word = None, trig_time = Some 0, trig_marker = None,
                    trig_position = None \<rparr>,
       tr_controlPoints = None \<rparr>"



definition quietBuffer :: Buffer where
  \<comment> \<open>one stereo frame: the samples 1000 and 0\<close>
  "quietBuffer = [0xE8, 0x03, 0x00, 0x00]"

definition twoFrames :: Buffer where
  \<comment> \<open>two stereo frames: the samples 1000, 0, -1000 and 500\<close>
  "twoFrames = [0xE8, 0x03, 0x00, 0x00, 0x18, 0xFC, 0xF4, 0x01]"

definition loudTrack :: "string \<Rightarrow> Buffer \<Rightarrow> AudioTrackResult" where
  \<comment> \<open>a track with one segment at the start of the timeline\<close>
  "loudTrack name audio =
     \<lparr> atr_characterId = name, atr_characterName = name, atr_audioBuffer = audio,
       atr_segments =
         [\<lparr> as_lineId = name, as_startTime = 0, as_endTime = 1 / 50, as_text = ''hi'',
             as_emotion = \<lparr> type = neutral, intensity = 1 / 2, variations = [] \<rparr>,
             as_audioBuffer = audio \<rparr>],
       atr_totalDuration = 1 / 50 \<rparr>"

definition loudTracks :: "AudioTrackResult list" where
  \<comment> \<open>two tracks of one stereo frame each: the samples 30000, -30000 and 10000, -10000\<close>
  "loudTracks =
     [loudTrack ''A'' [0x30, 0x75, 0xD0, 0x8A], loudTrack ''B'' [0x10, 0x27, 0xF0, 0xD8]]"

definition shortTimeline :: ConversationTimeline where
  \<comment> \<open>a timeline of 0.02 ms, which is one frame at 44100 Hz\<close>
  "shortTimeline = \<lparr> ct_totalDuration = 1 / 50, ct_events = [], ct_characterUsage = Map.empty \<rparr>"

definition plainMixing :: MixingOptions where
  "plainMixing =
     \<lparr> mo_enableAutomaticMixing = True, mo_preserveIndividualTracks = True,
       mo_normalizeAudio = False, mo_compressionLevel = 0, mo_spatialAudioEnabled = False \<rparr>"

definition aliceBlock :: string where
  \<comment> \<open>the SRT block \<open>1\n00:00:01,000 --> 00:00:03,000\nALICE: Hello [happy]!\n\<close>\<close>
  "aliceBlock =
     ''1'' @ [CHR 0x0A] @ ''00:00:01,000 --> 00:00:03,000'' @ [CHR 0x0A]
     @ ''ALICE: Hello [happy]!'' @ [CHR 0x0A]"

section \<open>Properties\<close>

subsection \<open>Prompt interpreter\<close>

text \<open>
  Claim C10. A prompt can contain the token \<open>female\<close> and still be parsed as male: whenever
  the lower-cased prompt contains \<open>female\<close> and the substring \<open>man\<close> but not \<open>woman\<close>,
  the rule for \<open>man\<close>, which is evaluated last, overwrites the result of the rule for
  \<open>female\<close>, and \<open>parseVoicePrompt\<close> returns gender male. The prompt
  \<open>female human voice\<close> is such an input.
\<close>

theorem parseVoicePrompt_female_man_is_male:
  assumes "string_includes (toLowerCase prompt) ''female''"
    and "string_includes (toLowerCase prompt) ''man''"
    and "\<not> string_includes (toLowerCase prompt) ''woman''"
  shows "vc_gender (parseVoicePrompt prompt) = gender_male"
  using assms by (simp add: parseVoicePrompt_def parseGender_def Let_def)

theorem parseVoicePrompt_female_man_is_male_witness:
  "string_includes (toLowerCase ''female human voice'') ''female''
   \<and> string_includes (toLowerCase ''female human voice'') ''man''
   \<and> \<not> string_includes (toLowerCase ''female human voice'') ''woman''
   \<and> vc_gender (parseVoicePrompt ''female human voice'') = gender_male"
proof -
  have a: "string_includes (toLowerCase ''female human voice'') ''female''" by code_simp
  have b: "string_includes (toLowerCase ''female human voice'') ''man''" by code_simp
  have c: "\<not> string_includes (toLowerCase ''female human voice'') ''woman''" by code_simp
  from a b c parseVoicePrompt_female_man_is_male [OF a b c] show ?thesis by blast
qed

subsection \<open>Emotion curves\<close>

lemma bezier_unit_value:
  "bezier t (Some [(0, 0), (1, 1)]) = Inr (3 * t ^ 2 - 2 * t ^ 3)"
  by (simp add: bezier_def Let_def power2_eq_square power3_eq_cube algebra_simps)

lemma smoothstep_nonneg:
  fixes t :: rat
  assumes "0 \<le> t" "t \<le> 1"
  shows "0 \<le> 3 * t ^ 2 - 2 * t ^ 3"
proof -
  have "3 * t ^ 2 - 2 * t ^ 3 = t ^ 2 * (3 - 2 * t)"
    by (simp add: power2_eq_square power3_eq_cube algebra_simps)
  moreover have "0 \<le> t ^ 2 * (3 - 2 * t)"
    using assms by (intro mult_nonneg_nonneg) auto
  ultimately show ?thesis by simp
qed

lemma smoothstep_le_one:
  fixes t :: rat
  assumes "0 \<le> t" "t \<le> 1"
  shows "3 * t ^ 2 - 2 * t ^ 3 \<le> 1"
proof -
  have "1 - (3 * t ^ 2 - 2 * t ^ 3) = (1 - t) ^ 2 * (1 + 2 * t)"
    by (simp add: power2_eq_square power3_eq_cube algebra_simps)
  moreover have "0 \<le> (1 - t) ^ 2 * (1 + 2 * t)"
    using assms by (intro mult_nonneg_nonneg) auto
  ultimately show ?thesis by simp
qed

lemma smoothstep_fixed_points:
  fixes t :: rat
  shows "3 * t ^ 2 - 2 * t ^ 3 = t \<longleftrightarrow> t = 0 \<or> t = 1 / 2 \<or> t = 1"
proof -
  have "3 * t ^ 2 - 2 * t ^ 3 - t = - (t * ((2 * t - 1) * (t - 1)))"
    by (simp add: power2_eq_square power3_eq_cube algebra_simps)
  then have "3 * t ^ 2 - 2 * t ^ 3 = t \<longleftrightarrow> t * ((2 * t - 1) * (t - 1)) = 0"
    by (metis eq_iff_diff_eq_0 neg_equal_0_iff_equal)
  also have "\<dots> \<longleftrightarrow> t = 0 \<or> 2 * t - 1 = 0 \<or> t - 1 = 0"
    by simp
  also have "\<dots> \<longleftrightarrow> t = 0 \<or> t = 1 / 2 \<or> t = 1"
    by auto
  finally show ?thesis .
qed

lemma smoothstep_deviation:
  fixes t :: rat
  assumes "0 \<le> t" "t \<le> 1"
  shows "\<bar>3 * t ^ 2 - 2 * t ^ 3 - t\<bar> \<le> 1 / 10"
proof -
  define p where "p = t * (1 - t)"
  define f where "f = 3 * t ^ 2 - 2 * t ^ 3 - t"
  have p0: "0 \<le> p" using assms by (simp add: p_def)
  have fsq: "f ^ 2 = p ^ 2 * (1 - 4 * p)"
    by (simp add: f_def p_def power2_eq_square power3_eq_cube algebra_simps)
  have "1 / 108 - p ^ 2 * (1 - 4 * p) = 4 * (p - 1 / 6) ^ 2 * (p + 1 / 12)"
    by (simp add: power2_eq_square algebra_simps)
  moreover have "0 \<le> 4 * (p - 1 / 6) ^ 2 * (p + 1 / 12)"
    using p0 by (intro mult_nonneg_nonneg) auto
  ultimately have "0 \<le> 1 / 108 - p ^ 2 * (1 - 4 * p)" by simp
  then have "f ^ 2 \<le> 1 / 108" unfolding fsq by linarith
  then have "f ^ 2 \<le> (1 / 10) ^ 2" by (simp add: power2_eq_square)
  then have "\<bar>f\<bar> \<le> 1 / 10"
    by (metis abs_le_square_iff abs_of_nonneg divide_nonneg_nonneg zero_le_numeral zero_le_one)
  then show ?thesis by (simp add: f_def)
qed

text \<open>
  Claim C8 says that \<open>bezier\<close> with the control points \<open>(0,0)\<close> and \<open>(1,1)\<close> is
  the linear easing within numerical tolerance. The function evaluates the ordinate of
  the curve directly at the parameter \<open>t\<close>, which with these control points is
  \<open>3t\<^sup>2 - 2t\<^sup>3\<close>: at \<open>t = 1/4\<close> it returns \<open>5/32\<close>, which is \<open>3/32\<close> below the
  linear value \<open>1/4\<close>.
\<close>

theorem bezier_unit_control_points_counterexample:
  "bezier (1 / 4) (Some [(0, 0), (1, 1)]) = Inr (linear (1 / 4) - 3 / 32)"
  by (simp add: bezier_def linear_def Let_def)

text \<open>
  Claim C8, as amended. For every progress \<open>t\<close> in \<open>[0,1]\<close>, \<open>bezier\<close> with the
  control points \<open>(0,0)\<close> and \<open>(1,1)\<close> returns \<open>3t\<^sup>2 - 2t\<^sup>3\<close>. This value lies in
  \<open>[0,1]\<close>, equals the linear easing exactly at \<open>t = 0\<close>, \<open>1/2\<close> and \<open>1\<close>, and is
  within \<open>0.1\<close> of it everywhere on the interval.
\<close>

theorem bezier_unit_control_points:
  assumes "0 \<le> t" and "t \<le> 1"
  shows "bezier t (Some [(0, 0), (1, 1)]) = Inr (3 * t ^ 2 - 2 * t ^ 3)
    \<and> 0 \<le> 3 * t ^ 2 - 2 * t ^ 3 \<and> 3 * t ^ 2 - 2 * t ^ 3 \<le> 1
    \<and> (3 * t ^ 2 - 2 * t ^ 3 = linear t \<longleftrightarrow> t = 0 \<or> t = 1 / 2 \<or> t = 1)
    \<and> \<bar>3 * t ^ 2 - 2 * t ^ 3 - linear t\<bar> \<le> 1 / 10"
proof -
  have lin: "linear t = t" using assms by (simp add: linear_def)
  show ?thesis
    unfolding lin
    using bezier_unit_value [of t] smoothstep_nonneg [OF assms] smoothstep_le_one [OF assms]
      smoothstep_fixed_points [of t] smoothstep_deviation [OF assms]
    by blast
qed

text \<open>Witness for C8: the amended statement at \<open>t = 1/4\<close>.\<close>

theorem bezier_unit_control_points_witness:
  "(0::rat) \<le> 1 / 4 \<and> (1 / 4 :: rat) \<le> 1
   \<and> bezier (1 / 4) (Some [(0, 0), (1, 1)]) = Inr (5 / 32)
   \<and> \<bar>5 / 32 - linear (1 / 4)\<bar> \<le> 1 / 10"
proof -
  have a: "(0::rat) \<le> 1 / 4" and b: "(1 / 4 :: rat) \<le> 1" by simp_all
  have v: "3 * (1 / 4 :: rat) ^ 2 - 2 * (1 / 4) ^ 3 = 5 / 32"
    by (simp add: power2_eq_square power3_eq_cube)
  from bezier_unit_control_points [OF a b] show ?thesis
    unfolding v using a b by blast
qed

subsection \<open>Conversation manager\<close>

text \<open>
  Claim C3 says that a plan with no dialogue lines yields a result with an empty master.
  \<open>validateConversationConfig\<close> rejects such a plan before anything else runs: with two
  characters and no lines, \<open>generateConversation\<close> throws.
\<close>

theorem generateConversation_empty_dialogue_counterexample: "generateConversation silentVoice Map.empty (exampleRequest [])
  = Inl (Error ''Conversation must have at least one dialogue line'')"
  by (simp add: generateConversation_def validateConversationConfig_def exampleRequest_def)

text \<open>
  Claim C3, as amended. For every request whose dialogue is empty, \<open>generateConversation\<close>
  fails with a validation error and returns no result: the error is that the conversation
  must have at least one dialogue line, or, when the character list is empty too, that it
  must have at least one character.
\<close>

theorem generateConversation_empty_dialogue:
  assumes "cfg_dialogue (req_config request) = []"
  shows "generateConversation generateVoice registered request =
     Inl (Error (if cfg_characters (req_config request) = []
                 then ''Conversation must have at least one character''
                 else ''Conversation must have at least one dialogue line''))"
  using assms by (simp add: generateConversation_def validateConversationConfig_def Let_def)

text \<open>Witness for C3: a request with neither characters nor lines.\<close>

theorem generateConversation_empty_dialogue_witness:
  "cfg_dialogue (req_config emptyRequest) = []
   \<and> generateConversation silentVoice Map.empty emptyRequest
       = Inl (Error ''Conversation must have at least one character'')"
proof -
  have h: "cfg_dialogue (req_config emptyRequest) = []"
    by (simp add: emptyRequest_def)
  have c: "cfg_characters (req_config emptyRequest) = []"
    by (simp add: emptyRequest_def)
  from generateConversation_empty_dialogue [OF h, of silentVoice Map.empty] h c
  show ?thesis by simp
qed














lemma processDialogueTiming_pause_after:
  \<comment> \<open>the second line starts after the pause after the first and the pause between lines\<close>
  "map (\<lambda>line. (dt_startTime (dl_timing line), dt_endTime (dl_timing line)))
     (processDialogueTiming pausedLines exampleSettings)
   = [(0, Some 1000), (1800, Some 2800)]"
  by code_simp




lemma fold_timelineStep_events:
  "fst (fold timelineStep dialogue (events, usage, dur))
   = events @ concat (map lineEvents dialogue)"
  by (induction dialogue arbitrary: events usage dur)
     (simp_all add: timelineStep_def Let_def)

lemma createConversationTimeline_events:
  "ct_events (createConversationTimeline dialogue audioTracks)
   = sort_key ev_time (concat (map lineEvents dialogue))"
proof -
  obtain events usage dur
    where f: "fold timelineStep dialogue ([], Map.empty, 0) = (events, usage, dur)"
    by (metis prod_cases3)
  have "events = concat (map lineEvents dialogue)"
    using fold_timelineStep_events [of dialogue "[]" Map.empty 0] f by simp
  then show ?thesis by (simp add: createConversationTimeline_def f)
qed

lemma generateConversation_timeline:
  assumes "generateConversation generateVoice registered request = Inr result"
  shows "ct_events (cr_timeline result)
         = sort_key ev_time (concat (map lineEvents
             (processDialogueTiming (cfg_dialogue (req_config request))
                (cfg_globalSettings (req_config request)))))"
  using assms
  by (auto simp: generateConversation_def Let_def createConversationTimeline_events
           split: sum.splits if_splits)

text \<open>
  Claim C7 says that the event list is sorted by time and then by event kind, so that a
  \<open>line_start\<close> precedes a \<open>line_end\<close> at the same time. The events are sorted by
  time alone: when the second line follows the first with no pause, the end of the first
  line (pushed earlier) stays before the start of the second at 1000 ms.
\<close>

theorem timeline_events_priority_counterexample:
  "map_sum (\<lambda>e. e)
     (\<lambda>result. (map (\<lambda>ev. (ev_time ev, ev_type ev)) (ct_events (cr_timeline result)),
                spec_sortedByTimeAndPriority (ct_events (cr_timeline result))))
     (generateConversation silentVoice Map.empty (exampleRequest backToBack))
   = Inr ([(0, line_start), (1000, line_end), (1000, line_start), (2000, line_end)], False)"
  by code_simp

text \<open>
  Claim C7, as amended. For every generated conversation, the timeline's event list is
  sorted non-decreasingly by time, and events with equal time keep the order in which they
  were pushed: line by line in dialogue order, and for each line its \<open>line_start\<close>, its
  \<open>line_end\<close>, its \<open>emotion_change\<close> events, its \<open>overlap_start\<close> and its
  \<open>overlap_end\<close>.
\<close>

theorem timeline_events_sorted_by_time:
  assumes "generateConversation generateVoice registered request = Inr result"
  shows "sorted (map ev_time (ct_events (cr_timeline result)))
    \<and> (\<forall>t. filter (\<lambda>ev. ev_time ev = t) (ct_events (cr_timeline result))
           = filter (\<lambda>ev. ev_time ev = t)
               (concat (map lineEvents
                  (processDialogueTiming (cfg_dialogue (req_config request))
                     (cfg_globalSettings (req_config request))))))"
  unfolding generateConversation_timeline [OF assms]
  by (simp add: sort_key_stable)

text \<open>Witness for C7: the two back-to-back lines.\<close>

theorem timeline_events_sorted_by_time_witness:
  "generateConversation silentVoice Map.empty (exampleRequest backToBack)
     = Inr (projr (generateConversation silentVoice Map.empty (exampleRequest backToBack)))
   \<and> sorted (map ev_time (ct_events (cr_timeline
         (projr (generateConversation silentVoice Map.empty (exampleRequest backToBack))))))
   \<and> map (\<lambda>ev. (ev_time ev, ev_type ev, ev_lineId ev)) (ct_events (cr_timeline
         (projr (generateConversation silentVoice Map.empty (exampleRequest backToBack)))))
      = [(0, line_start, Some ''A1''), (1000, line_end, Some ''A1''),
         (1000, line_start, Some ''B1''), (2000, line_end, Some ''B1'')]"
proof -
  have "\<not> isl (generateConversation silentVoice Map.empty (exampleRequest backToBack))"
    by code_simp
  then have r: "generateConversation silentVoice Map.empty (exampleRequest backToBack)
     = Inr (projr (generateConversation silentVoice Map.empty (exampleRequest backToBack)))"
    by simp
  have v: "map (\<lambda>ev. (ev_time ev, ev_type ev, ev_lineId ev)) (ct_events (cr_timeline
         (projr (generateConversation silentVoice Map.empty (exampleRequest backToBack)))))
      = [(0, line_start, Some ''A1''), (1000, line_end, Some ''A1''),
         (1000, line_start, Some ''B1''), (2000, line_end, Some ''B1'')]"
    by code_simp
  from timeline_events_sorted_by_time [OF r] r v show ?thesis by blast
qed

subsection \<open>Emotion transition engine\<close>

lemma pushTransitionKeyframes_mono:
  assumes "pushTransitionKeyframes search text transitions acc = Inr keyframes"
  shows "set acc \<subseteq> set keyframes"
  using assms
proof (induction transitions arbitrary: acc)
  case Nil
  then show ?case by simp
next
  case (Cons tr rest)
  then show ?case
    by (fastforce split: sum.splits if_splits)
qed

lemma pushTransitionKeyframes_contains:
  assumes "pushTransitionKeyframes search text transitions acc = Inr keyframes"
    and "transition \<in> set transitions"
    and "calculateTriggerTime search text transition = Inr t"
    and "0 \<le> t"
  shows "startKeyframe t transition \<in> set keyframes
       \<and> endKeyframe t transition \<in> set keyframes"
  using assms
proof (induction transitions arbitrary: acc)
  case Nil
  then show ?case by simp
next
  case (Cons tr rest)
  show ?case
  proof (cases "transition = tr")
    case True
    with Cons.prems have
      "pushTransitionKeyframes search text rest
         (acc @ [startKeyframe t transition, endKeyframe t transition]) = Inr keyframes"
      by (simp add: startKeyframe_def endKeyframe_def)
    from pushTransitionKeyframes_mono [OF this] show ?thesis by simp
  next
    case False
    with Cons.prems have mem: "transition \<in> set rest" by simp
    from Cons.prems(1) obtain acc' where
      "pushTransitionKeyframes search text rest acc' = Inr keyframes"
      by (auto split: sum.splits if_splits)
    from Cons.IH [OF this mem Cons.prems(3) Cons.prems(4)] show ?thesis .
  qed
qed



lemma validateTransition_double_rounding:
  \<comment> \<open>in doubles \<open>0.6 - 0.5\<close> is \<open>0.09999999999999998\<close>, which is below \<open>0.1\<close>\<close>
  "\<not> validateTransition defaultConfig thresholdTransition
   \<and> intensity (toEmotion thresholdTransition) - intensity (fromEmotion thresholdTransition)
       = intensityThreshold defaultConfig"
  by code_simp

text \<open>
  Claim C2 says that \<open>processEmotionTransitions\<close> drops a transition that fails
  validation. It never calls \<open>validateTransition\<close>: the transition of the repository's
  own validation test (100 ms long, intensity change 0.01) is rejected by
  \<open>validateTransition\<close>, yet it contributes both of its keyframes and is counted.
\<close>

theorem invalid_transition_counterexample:
  "validateTransition defaultConfig invalidTransition = False
   \<and> map_sum (\<lambda>e. e)
       (\<lambda>r. (map (\<lambda>k. (kf_time k, kf_emotion k, kf_intensity k))
                 (tl_keyframes (res_timeline r)),
             transitionCount r))
       (processEmotionTransitions defaultConfig noMarkerSearch ''this is a test''
          [invalidTransition] exampleEmotion)
     = Inr ([(0, neutral, 1 / 2), (2000 / 3, neutral, 1 / 2), (2300 / 3, neutral, 51 / 100)], 1)"
  by code_simp

text \<open>
  Claim C2, as amended. \<open>processEmotionTransitions\<close> rejects no transition: a transition
  whose duration lies outside \<open>[minimumDuration, maximumDuration]\<close> or whose intensity
  change is below \<open>intensityThreshold\<close> is treated like every other. Every transition
  whose trigger resolves to a time \<open>t \<ge> 0\<close> contributes its keyframes at \<open>t\<close> and
  \<open>t + duration\<close> to the timeline, and \<open>transitionCount\<close> counts every transition
  given.
\<close>

theorem invalid_transitions_are_kept:
  assumes "processEmotionTransitions config search text transitions defaultEmotion = Inr result"
    and "transition \<in> set transitions"
    and "calculateTriggerTime search text transition = Inr t"
    and "0 \<le> t"
  shows "startKeyframe t transition \<in> set (tl_keyframes (res_timeline result))
    \<and> endKeyframe t transition \<in> set (tl_keyframes (res_timeline result))
    \<and> transitionCount result = length transitions"
proof -
  from assms(1) obtain keyframes where
    push: "pushTransitionKeyframes search text transitions
             [defaultKeyframe defaultEmotion]
           = Inr keyframes"
    and tl: "tl_keyframes (res_timeline result) = sort_key kf_time keyframes"
    and cnt: "transitionCount result = length transitions"
    by (auto simp: processEmotionTransitions_def createEmotionTimeline_def split: sum.splits)
  from pushTransitionKeyframes_contains [OF push assms(2) assms(3) assms(4)]
  have "startKeyframe t transition \<in> set (tl_keyframes (res_timeline result))"
    and "endKeyframe t transition \<in> set (tl_keyframes (res_timeline result))"
    unfolding tl by simp_all
  with cnt show ?thesis by blast
qed

text \<open>
  Witness for C2: the transition of the test, which \<open>validateTransition\<close> rejects,
  triggered by the word at index 10.
\<close>

theorem invalid_transitions_are_kept_witness:
  "processEmotionTransitions defaultConfig noMarkerSearch ''this is a test''
       [invalidTransition] exampleEmotion
     = Inr (projr (processEmotionTransitions defaultConfig noMarkerSearch ''this is a test''
               [invalidTransition] exampleEmotion))
   \<and> invalidTransition \<in> set [invalidTransition]
   \<and> calculateTriggerTime noMarkerSearch ''this is a test'' invalidTransition = Inr (2000 / 3)
   \<and> (0 :: number) \<le> 2000 / 3
   \<and> \<not> validateTransition defaultConfig invalidTransition
   \<and> startKeyframe (2000 / 3) invalidTransition
       \<in> set (tl_keyframes (res_timeline
             (projr (processEmotionTransitions defaultConfig noMarkerSearch ''this is a test''
                [invalidTransition] exampleEmotion))))
   \<and> endKeyframe (2000 / 3) invalidTransition
       \<in> set (tl_keyframes (res_timeline
             (projr (processEmotionTransitions defaultConfig noMarkerSearch ''this is a test''
                [invalidTransition] exampleEmotion))))
   \<and> transitionCount
         (projr (processEmotionTransitions defaultConfig noMarkerSearch ''this is a test''
            [invalidTransition] exampleEmotion))
       = 1"
proof -
  have "\<not> isl (processEmotionTransitions defaultConfig noMarkerSearch ''this is a test''
                 [invalidTransition] exampleEmotion)"
    by code_simp
  then have r: "processEmotionTransitions defaultConfig noMarkerSearch ''this is a test''
       [invalidTransition] exampleEmotion
     = Inr (projr (processEmotionTransitions defaultConfig noMarkerSearch ''this is a test''
               [invalidTransition] exampleEmotion))"
    by simp
  have m: "invalidTransition \<in> set [invalidTransition]" by simp
  have t: "calculateTriggerTime noMarkerSearch ''this is a test'' invalidTransition
           = Inr (2000 / 3)"
    by code_simp
  have p: "(0 :: number) \<le> 2000 / 3" by simp
  have v: "\<not> validateTransition defaultConfig invalidTransition" by code_simp
  from invalid_transitions_are_kept [OF r m t p] r m t p v show ?thesis by simp
qed




subsection \<open>Audio mixer\<close>

lemma foldE_append:
  "foldE f (xs @ ys) s = (case foldE f xs s of Inl e \<Rightarrow> Inl e | Inr s' \<Rightarrow> foldE f ys s')"
  by (induction xs arbitrary: s) (auto split: sum.splits)

lemma foldE_error:
  assumes "foldE f xs s = Inl e"
    and "\<And>x s' e'. f x s' = Inl e' \<Longrightarrow> P e'"
  shows "P e"
  using assms(1)
proof (induction xs arbitrary: s)
  case Nil
  then show ?case by simp
next
  case (Cons x xs)
  then show ?case using assms(2) by (auto split: sum.splits)
qed

lemma readInt16LE_range:
  assumes "readInt16LE buf off = Inr s"
  shows "- 32768 \<le> s \<and> s \<le> 32767"
proof -
  define a where "a = uint (buf ! nat off)"
  define b where "b = uint (buf ! (nat off + 1))"
  have ab: "0 \<le> a" "a < 256" "0 \<le> b" "b < 256"
    using uint_bounded [of "buf ! nat off"] uint_bounded [of "buf ! (nat off + 1)"]
    by (simp_all add: a_def b_def)
  from assms have "s = (if a + 256 * b \<ge> 32768 then a + 256 * b - 65536 else a + 256 * b)"
    by (auto simp: readInt16LE_def Let_def a_def b_def split: if_splits)
  with ab show ?thesis by (auto split: if_splits)
qed

lemma readInt16LE_error:
  "readInt16LE buf off = Inl e \<Longrightarrow> e = ERR_OUT_OF_RANGE ''offset''"
  by (auto simp: readInt16LE_def Let_def split: if_splits)

lemma writeInt16LE_length:
  "writeInt16LE buf v off = Inr buf' \<Longrightarrow> length buf' = length buf"
  by (auto simp: writeInt16LE_def Let_def split: if_splits)

lemma writeInt16LE_clipped_error:
  "writeInt16LE buf (max (- 32768) (min 32767 x)) off = Inl e
   \<Longrightarrow> e = ERR_OUT_OF_RANGE ''offset''"
  by (auto simp: writeInt16LE_def Let_def split: if_splits)

lemma writeInt16LE_ok:
  assumes "- 32768 \<le> v" "v \<le> 32767" "0 \<le> off" "off + 2 \<le> int (length buf)"
  shows "\<exists>buf'. writeInt16LE buf v off = Inr buf'"
  using assms by (simp add: writeInt16LE_def Let_def)

lemma decode_encode_int16:
  fixes v :: int
  assumes "- 32768 \<le> v" "v \<le> 32767"
  shows "(if v mod 65536 \<ge> 32768 then v mod 65536 - 65536 else v mod 65536) = v"
proof (cases "0 \<le> v")
  case True
  then have "v mod 65536 = v" using assms by simp
  then show ?thesis using assms by simp
next
  case False
  then have "v mod 65536 = v + 65536"
    using assms by (simp add: int_mod_pos_eq [where q = "- 1"])
  then show ?thesis using assms False by simp
qed

lemma readInt16LE_writeInt16LE_same:
  assumes "writeInt16LE buf v off = Inr buf'"
  shows "readInt16LE buf' off = Inr v"
proof -
  from assms have r: "- 32768 \<le> v" "v \<le> 32767" and o: "0 \<le> off" "off + 2 \<le> int (length buf)"
    and b: "buf' = buf[nat off := word_of_int ((v mod 65536) mod 256),
                      nat off + 1 := word_of_int ((v mod 65536) div 256)]"
    by (auto simp: writeInt16LE_def Let_def split: if_splits)
  have len: "nat off < length buf" "nat off + 1 < length buf" using o by auto
  have lo: "uint (buf' ! nat off) = (v mod 65536) mod 256"
    using len by (simp add: b uint_word_of_int)
  have "0 \<le> (v mod 65536) div 256" "(v mod 65536) div 256 < 256"
    by (simp_all add: pos_imp_zdiv_nonneg_iff div_less_iff_less_mult)
  then have hi: "uint (buf' ! (nat off + 1)) = (v mod 65536) div 256"
    using len by (simp add: b uint_word_of_int)
  have "length buf' = length buf" by (simp add: b)
  then have "readInt16LE buf' off
      = Inr (if v mod 65536 \<ge> 32768 then v mod 65536 - 65536 else v mod 65536)"
    using o lo hi by (simp add: readInt16LE_def Let_def)
  then show ?thesis by (simp only: decode_encode_int16 [OF r])
qed

lemma readInt16LE_writeInt16LE_other:
  assumes "writeInt16LE buf v off = Inr buf'"
    and "off' + 2 \<le> off \<or> off + 2 \<le> off'"
  shows "readInt16LE buf' off' = readInt16LE buf off'"
proof -
  from assms(1) have o: "0 \<le> off" "off + 2 \<le> int (length buf)"
    and b: "buf' = buf[nat off := word_of_int ((v mod 65536) mod 256),
                      nat off + 1 := word_of_int ((v mod 65536) div 256)]"
    by (auto simp: writeInt16LE_def Let_def split: if_splits)
  have len: "length buf' = length buf" by (simp add: b)
  show ?thesis
  proof (cases "off' < 0 \<or> int (length buf) < off' + 2")
    case True
    then show ?thesis by (simp add: readInt16LE_def len)
  next
    case False
    then have "nat off' \<noteq> nat off" "nat off' \<noteq> nat off + 1"
      "nat off' + 1 \<noteq> nat off" "nat off' + 1 \<noteq> nat off + 1"
      using assms(2) o by auto
    then have "buf' ! nat off' = buf ! nat off'" "buf' ! (nat off' + 1) = buf ! (nat off' + 1)"
      by (simp_all add: b)
    then show ?thesis by (simp add: readInt16LE_def len)
  qed
qed

lemma foldE_map: "foldE f (map h xs) s = foldE (\<lambda>x. f (h x)) xs s"
  by (induction xs arbitrary: s) (auto split: sum.splits)

lemma foldE_concat_map:
  "foldE f (concat (map g xs)) s = foldE (\<lambda>x. foldE f (g x)) xs s"
  by (induction xs arbitrary: s) (auto simp: foldE_append split: sum.splits)

lemma foldE_cong:
  assumes "\<And>x s. x \<in> set xs \<Longrightarrow> f x s = g x s"
  shows "foldE f xs s = foldE g xs s"
  using assms by (induction xs arbitrary: s) (auto split: sum.splits)

lemma sampleOffsets_iff:
  "ofs \<in> set (sampleOffsets n) \<longleftrightarrow> (\<exists>i<n. ofs = i * 4 \<or> ofs = i * 4 + 2)"
  by (auto simp: sampleOffsets_def)

lemma sampleOffsets_even: "ofs \<in> set (sampleOffsets n) \<Longrightarrow> even ofs"
  by (auto simp: sampleOffsets_iff)

lemma sampleOffsets_bound: "ofs \<in> set (sampleOffsets n) \<Longrightarrow> ofs + 2 \<le> n * 4"
  by (auto simp: sampleOffsets_iff)

lemma sampleOffsets_all: "k < 2 * n \<Longrightarrow> 2 * k \<in> set (sampleOffsets n)"
proof -
  assume k: "k < 2 * n"
  have "k div 2 < n" using k by auto
  moreover have "2 * k = (k div 2) * 4 \<or> 2 * k = (k div 2) * 4 + 2" by presburger
  ultimately show ?thesis unfolding sampleOffsets_iff by blast
qed

lemma forEachSample_default:
  "forEachSample buffer processingOptions body s
   = foldE body (sampleOffsets (length buffer div 4)) s"
proof -
  have two: "[0..<2] = [0, Suc 0]" by (simp add: upt_rec)
  have inner: "\<And>i st. i < length buffer div 4 \<Longrightarrow>
      foldE (\<lambda>channel st.
               (let byteIndex = i * 4 + channel * 2
                in if byteIndex + 1 < length buffer then body byteIndex st else Inr st))
        [0..<2] st
      = foldE body [i * 4, i * 4 + 2] st"
  proof -
    fix i st assume "i < length buffer div 4"
    then have "i * 4 + 3 < length buffer" by auto
    then show "foldE (\<lambda>channel st.
               (let byteIndex = i * 4 + channel * 2
                in if byteIndex + 1 < length buffer then body byteIndex st else Inr st))
        [0..<2] st
      = foldE body [i * 4, i * 4 + 2] st"
      unfolding two by (auto simp: Let_def split: sum.splits)
  qed
  have "forEachSample buffer processingOptions body s
    = foldE (\<lambda>i. foldE (\<lambda>channel st.
               (let byteIndex = i * 4 + channel * 2
                in if byteIndex + 1 < length buffer then body byteIndex st else Inr st))
        [0..<2]) [0..<length buffer div 4] s"
    by (simp add: forEachSample_def bytesPerSample_def processingOptions_def)
  also have "\<dots> = foldE (\<lambda>i. foldE body [i * 4, i * 4 + 2]) [0..<length buffer div 4] s"
  proof (rule foldE_cong)
    fix i st assume "i \<in> set [0..<length buffer div 4]"
    then have "i < length buffer div 4" by simp
    from inner [OF this]
    show "foldE (\<lambda>channel st.
               (let byteIndex = i * 4 + channel * 2
                in if byteIndex + 1 < length buffer then body byteIndex st else Inr st))
        [0..<2] st
      = foldE body [i * 4, i * 4 + 2] st" .
  qed
  also have "\<dots> = foldE body (sampleOffsets (length buffer div 4)) s"
    by (simp add: sampleOffsets_def foldE_concat_map)
  finally show ?thesis .
qed

lemma readInt16LE_ok:
  assumes "ofs + 2 \<le> length buf"
  shows "\<exists>s. readInt16LE buf (int ofs) = Inr s"
  using assms by (simp add: readInt16LE_def Let_def)

lemma peak_fold:
  assumes "\<forall>ofs \<in> set os. ofs + 2 \<le> length buffer"
  shows "\<exists>p. foldE (\<lambda>byteIndex peak.
                 case readInt16LE buffer (int byteIndex) of
                   Inl e \<Rightarrow> Inl e
                 | Inr v \<Rightarrow> Inr (max peak \<bar>v\<bar>)) os p0 = Inr p
             \<and> p0 \<le> p
             \<and> (\<forall>ofs \<in> set os. \<forall>s. readInt16LE buffer (int ofs) = Inr s \<longrightarrow> \<bar>s\<bar> \<le> p)
             \<and> (p = p0 \<or> (\<exists>ofs \<in> set os. \<exists>s. readInt16LE buffer (int ofs) = Inr s
                              \<and> \<bar>s\<bar> = p))"
  using assms
proof (induction os arbitrary: p0)
  case Nil
  then show ?case by simp
next
  case (Cons a os)
  from Cons.prems have "a + 2 \<le> length buffer" by simp
  from readInt16LE_ok [OF this] obtain v where v: "readInt16LE buffer (int a) = Inr v" ..
  from Cons.prems have "\<forall>ofs \<in> set os. ofs + 2 \<le> length buffer" by simp
  from Cons.IH [OF this, of "max p0 \<bar>v\<bar>"] obtain p where
    p: "foldE (\<lambda>byteIndex peak.
                 case readInt16LE buffer (int byteIndex) of
                   Inl e \<Rightarrow> Inl e
                 | Inr v \<Rightarrow> Inr (max peak \<bar>v\<bar>)) os (max p0 \<bar>v\<bar>) = Inr p"
    and le: "max p0 \<bar>v\<bar> \<le> p"
    and all: "\<forall>ofs \<in> set os. \<forall>s. readInt16LE buffer (int ofs) = Inr s \<longrightarrow> \<bar>s\<bar> \<le> p"
    and att: "p = max p0 \<bar>v\<bar> \<or> (\<exists>ofs \<in> set os. \<exists>s. readInt16LE buffer (int ofs) = Inr s
                              \<and> \<bar>s\<bar> = p)"
    by blast
  have step: "foldE (\<lambda>byteIndex peak.
                 case readInt16LE buffer (int byteIndex) of
                   Inl e \<Rightarrow> Inl e
                 | Inr v \<Rightarrow> Inr (max peak \<bar>v\<bar>)) (a # os) p0 = Inr p"
    using v p by simp
  have bound: "\<forall>ofs \<in> set (a # os). \<forall>s. readInt16LE buffer (int ofs) = Inr s \<longrightarrow> \<bar>s\<bar> \<le> p"
    using v le all by auto
  have attained: "p = p0 \<or> (\<exists>ofs \<in> set (a # os). \<exists>s. readInt16LE buffer (int ofs) = Inr s
                              \<and> \<bar>s\<bar> = p)"
  proof (cases "p = max p0 \<bar>v\<bar>")
    case True
    then have "p = p0 \<or> p = \<bar>v\<bar>" by (auto simp: max_def)
    with v show ?thesis by auto
  next
    case False
    with att show ?thesis by auto
  qed
  from step le bound attained show ?case by auto
qed

lemma sampleOffsets_index: "ofs \<in> set (sampleOffsets n) \<Longrightarrow> \<exists>k < 2 * n. ofs = 2 * k"
proof -
  assume "ofs \<in> set (sampleOffsets n)"
  then obtain i where i: "i < n" "ofs = i * 4 \<or> ofs = i * 4 + 2"
    unfolding sampleOffsets_iff by blast
  then have "(2 * i < 2 * n \<and> ofs = 2 * (2 * i)) \<or> (2 * i + 1 < 2 * n \<and> ofs = 2 * (2 * i + 1))"
    by auto
  then show ?thesis by blast
qed

lemma findPeak_default:
  "\<exists>p. findPeak buffer processingOptions = Inr p \<and> 0 \<le> p
     \<and> (\<forall>k < 2 * (length buffer div 4). \<forall>s.
            readInt16LE buffer (int (2 * k)) = Inr s \<longrightarrow> \<bar>s\<bar> \<le> p)
     \<and> (0 < p \<longrightarrow> (\<exists>k < 2 * (length buffer div 4). \<exists>s.
            readInt16LE buffer (int (2 * k)) = Inr s \<and> \<bar>s\<bar> = p))"
proof -
  let ?n = "length buffer div 4"
  have v: "\<forall>ofs \<in> set (sampleOffsets ?n). ofs + 2 \<le> length buffer"
    using sampleOffsets_bound [of _ ?n] by fastforce
  from peak_fold [OF v, of 0] obtain p where
    f: "findPeak buffer processingOptions = Inr p" and p0: "0 \<le> p"
    and all: "\<forall>ofs \<in> set (sampleOffsets ?n). \<forall>s.
                readInt16LE buffer (int ofs) = Inr s \<longrightarrow> \<bar>s\<bar> \<le> p"
    and att: "p = 0 \<or> (\<exists>ofs \<in> set (sampleOffsets ?n). \<exists>s.
                readInt16LE buffer (int ofs) = Inr s \<and> \<bar>s\<bar> = p)"
    unfolding findPeak_def forEachSample_default by blast
  have bound: "\<forall>k < 2 * ?n. \<forall>s. readInt16LE buffer (int (2 * k)) = Inr s \<longrightarrow> \<bar>s\<bar> \<le> p"
    using all sampleOffsets_all [of _ ?n] by blast
  have attained: "\<exists>k < 2 * ?n. \<exists>s. readInt16LE buffer (int (2 * k)) = Inr s \<and> \<bar>s\<bar> = p"
    if "0 < p"
  proof -
    from att that obtain ofs s where
      o: "ofs \<in> set (sampleOffsets ?n)" and s: "readInt16LE buffer (int ofs) = Inr s" "\<bar>s\<bar> = p"
      by auto
    from sampleOffsets_index [OF o] obtain k where "k < 2 * ?n" "ofs = 2 * k" by blast
    with s show ?thesis by blast
  qed
  from f p0 bound attained show ?thesis by blast
qed

lemma sample_map_fold:
  assumes "\<forall>ofs \<in> set os. even ofs \<and> ofs + 2 \<le> length buffer"
    and "length out0 = length buffer"
  shows "\<exists>out. foldE (\<lambda>byteIndex out.
                   case readInt16LE buffer (int byteIndex) of
                     Inl e \<Rightarrow> Inl e
                   | Inr sample \<Rightarrow>
                       writeInt16LE out (max (- 32768) (min 32767 (f sample))) (int byteIndex))
                 os out0 = Inr out
           \<and> length out = length buffer
           \<and> (\<forall>ofs \<in> set os. \<exists>s. readInt16LE buffer (int ofs) = Inr s
                  \<and> readInt16LE out (int ofs) = Inr (max (- 32768) (min 32767 (f s))))
           \<and> (\<forall>ofs. even ofs \<and> ofs \<notin> set os
                  \<longrightarrow> readInt16LE out (int ofs) = readInt16LE out0 (int ofs))"
  using assms
proof (induction os arbitrary: out0)
  case Nil
  then show ?case by simp
next
  case (Cons a os)
  let ?W = "\<lambda>byteIndex out.
                   case readInt16LE buffer (int byteIndex) of
                     Inl e \<Rightarrow> Inl e
                   | Inr sample \<Rightarrow>
                       writeInt16LE out (max (- 32768) (min 32767 (f sample))) (int byteIndex)"
  from Cons.prems have a: "even a" "a + 2 \<le> length buffer"
    and rest: "\<forall>ofs \<in> set os. even ofs \<and> ofs + 2 \<le> length buffer" by simp_all
  from readInt16LE_ok [OF a(2)] obtain s where s: "readInt16LE buffer (int a) = Inr s" ..
  have "\<exists>buf'. writeInt16LE out0 (max (- 32768) (min 32767 (f s))) (int a) = Inr buf'"
    using a(2) Cons.prems(2) by (intro writeInt16LE_ok) auto
  then obtain out1 where
    w: "writeInt16LE out0 (max (- 32768) (min 32767 (f s))) (int a) = Inr out1" ..
  have len1: "length out1 = length buffer"
    using writeInt16LE_length [OF w] Cons.prems(2) by simp
  from Cons.IH [OF rest len1] obtain out where
    f: "foldE ?W os out1 = Inr out"
    and len: "length out = length buffer"
    and vis: "\<forall>ofs \<in> set os. \<exists>s. readInt16LE buffer (int ofs) = Inr s
                  \<and> readInt16LE out (int ofs) = Inr (max (- 32768) (min 32767 (f s)))"
    and unv: "\<forall>ofs. even ofs \<and> ofs \<notin> set os
                  \<longrightarrow> readInt16LE out (int ofs) = readInt16LE out1 (int ofs)"
    by blast
  have step: "foldE ?W (a # os) out0 = Inr out" using s w f by simp
  have here: "\<exists>s. readInt16LE buffer (int a) = Inr s
                  \<and> readInt16LE out (int a) = Inr (max (- 32768) (min 32767 (f s)))"
  proof (cases "a \<in> set os")
    case True
    with vis show ?thesis by blast
  next
    case False
    with unv a(1) have "readInt16LE out (int a) = readInt16LE out1 (int a)" by blast
    with readInt16LE_writeInt16LE_same [OF w] s show ?thesis by simp
  qed
  have other: "\<forall>ofs. even ofs \<and> ofs \<notin> set (a # os)
                  \<longrightarrow> readInt16LE out (int ofs) = readInt16LE out0 (int ofs)"
  proof (intro allI impI)
    fix ofs assume h: "even ofs \<and> ofs \<notin> set (a # os)"
    then have "ofs \<noteq> a" "even ofs" "ofs \<notin> set os" by auto
    with a(1) have "int ofs + 2 \<le> int a \<or> int a + 2 \<le> int ofs" by presburger
    from readInt16LE_writeInt16LE_other [OF w this] unv h
    show "readInt16LE out (int ofs) = readInt16LE out0 (int ofs)" by simp
  qed
  from step len here vis other show ?case by auto
qed

lemma floor_rat_divide_numeral:
  "\<lfloor>numeral a / numeral b :: rat\<rfloor> = numeral a div numeral b"
  by (metis floor_divide_of_int_eq of_int_numeral)

lemma floor_rat_minus_divide_numeral:
  "\<lfloor>- (numeral a / numeral b) :: rat\<rfloor> = - numeral a div numeral b"
  by (metis divide_minus_left floor_divide_of_int_eq of_int_neg_numeral of_int_numeral)

lemma ceiling_rat_divide_numeral:
  "\<lceil>numeral a / numeral b :: rat\<rceil> = - (- numeral a div numeral b)"
  unfolding ceiling_def by (simp add: floor_rat_minus_divide_numeral)

lemma floor_rat_one_divide_numeral:
  "\<lfloor>1 / numeral b :: rat\<rfloor> = 1 div numeral b"
  by (metis floor_divide_of_int_eq of_int_1 of_int_numeral)

lemma replicate_numeral: "replicate (numeral k) x = x # replicate (pred_numeral k) x"
  by (simp add: numeral_eq_Suc)

lemma list_update_Cons_numeral: "(x # xs)[numeral k := y] = x # xs[pred_numeral k := y]"
  by (simp add: numeral_eq_Suc)

lemma roundTiesToEven_error: "\<bar>of_int (roundTiesToEven x) - x\<bar> \<le> 1 / 2"
proof -
  have "of_int \<lfloor>x\<rfloor> \<le> x" "x < of_int \<lfloor>x\<rfloor> + 1" by linarith+
  then show ?thesis
    unfolding roundTiesToEven_def Let_def by (auto simp: abs_le_iff)
qed

lemma exponent_le:
  assumes "x \<noteq> 0"
  shows "2 powi (exponent x) \<le> \<bar>x\<bar>"
proof (cases "1 \<le> \<bar>x\<bar>")
  case True
  define n where "n = \<lfloor>\<bar>x\<bar>\<rfloor>"
  have n: "0 < n" using True by (simp add: n_def)
  from bitlen_bounds [OF n] have b: "2 ^ nat (bitlen n - 1) \<le> n" and c: "n < 2 ^ nat (bitlen n)"
    by simp_all
  have "0 \<le> bitlen n - 1"
  proof (rule ccontr)
    assume "\<not> 0 \<le> bitlen n - 1"
    then have "nat (bitlen n) = 0" by simp
    with c n show False by simp
  qed
  then have "(2::rat) powi (bitlen n - 1) = 2 ^ nat (bitlen n - 1)"
    by (simp add: power_int_def)
  also have "\<dots> = of_int (2 ^ nat (bitlen n - 1))" by simp
  also have "\<dots> \<le> of_int n" using b by (simp only: of_int_le_iff)
  also have "\<dots> \<le> \<bar>x\<bar>" by (simp add: n_def)
  finally show ?thesis using True by (simp add: exponent_def n_def)
next
  case False
  define a where "a = \<bar>x\<bar>"
  have a: "0 < a" "a < 1" using assms False by (simp_all add: a_def)
  define m where "m = \<lceil>1 / a\<rceil>"
  have "1 < 1 / a" using a by simp
  then have m: "1 < m" by (simp add: m_def less_ceiling_iff)
  then have "0 < m - 1" by simp
  from bitlen_bounds [OF this] have "m - 1 < 2 ^ nat (bitlen (m - 1))" by simp
  then have "m \<le> 2 ^ nat (bitlen (m - 1))" by simp
  then have "(of_int m :: rat) \<le> of_int (2 ^ nat (bitlen (m - 1)))"
    by (simp only: of_int_le_iff)
  then have "(of_int m :: rat) \<le> 2 ^ nat (bitlen (m - 1))" by simp
  moreover have "1 / a \<le> of_int m" by (simp add: m_def)
  ultimately have "1 / a \<le> 2 ^ nat (bitlen (m - 1))" by linarith
  then have "1 / 2 ^ nat (bitlen (m - 1)) \<le> a" using a
    by (simp add: field_simps)
  moreover have "(2::rat) powi (- bitlen (m - 1)) = 1 / 2 ^ nat (bitlen (m - 1))"
    using bitlen_nonneg [of "m - 1"] by (simp add: power_int_def field_simps)
  ultimately show ?thesis using False by (simp add: exponent_def m_def a_def)
qed

lemma exponent_less:
  assumes "x \<noteq> 0"
  shows "\<bar>x\<bar> < 2 powi (exponent x + 1)"
proof (cases "1 \<le> \<bar>x\<bar>")
  case True
  define n where "n = \<lfloor>\<bar>x\<bar>\<rfloor>"
  have n: "0 < n" using True by (simp add: n_def)
  from bitlen_bounds [OF n] have "n < 2 ^ nat (bitlen n)" by simp
  then have "n + 1 \<le> 2 ^ nat (bitlen n)" by simp
  then have "(of_int (n + 1) :: rat) \<le> of_int (2 ^ nat (bitlen n))"
    by (simp only: of_int_le_iff)
  then have "(of_int n :: rat) + 1 \<le> 2 ^ nat (bitlen n)" by simp
  moreover have "\<bar>x\<bar> < of_int n + 1" unfolding n_def by linarith
  ultimately have "\<bar>x\<bar> < 2 ^ nat (bitlen n)" by linarith
  moreover have "(2::rat) powi (bitlen n) = 2 ^ nat (bitlen n)"
    using bitlen_nonneg [of n] by (simp add: power_int_def)
  ultimately show ?thesis using True by (simp add: exponent_def n_def)
next
  case False
  define a where "a = \<bar>x\<bar>"
  have a: "0 < a" "a < 1" using assms False by (simp_all add: a_def)
  define m where "m = \<lceil>1 / a\<rceil>"
  define k where "k = nat (bitlen (m - 1))"
  have "1 < 1 / a" using a by simp
  then have m: "1 < m" by (simp add: m_def less_ceiling_iff)
  then have pos: "0 < m - 1" by simp
  from bitlen_bounds [OF pos] have b: "2 ^ nat (bitlen (m - 1) - 1) \<le> m - 1"
    and c: "m - 1 < 2 ^ nat (bitlen (m - 1))" by simp_all
  have k: "0 < k"
  proof (rule ccontr)
    assume "\<not> 0 < k"
    then have "nat (bitlen (m - 1)) = 0" by (simp add: k_def)
    with c pos show False by simp
  qed
  have "nat (bitlen (m - 1) - 1) = k - 1" by (simp add: k_def nat_diff_distrib')
  with b have "(of_int (2 ^ (k - 1)) :: rat) \<le> of_int (m - 1)"
    by (simp only: of_int_le_iff)
  then have "(2 :: rat) ^ (k - 1) \<le> of_int m - 1" by simp
  moreover have "of_int m - 1 < 1 / a" unfolding m_def by linarith
  ultimately have "(2 :: rat) ^ (k - 1) < 1 / a" by linarith
  then have "a < 1 / 2 ^ (k - 1)" using a by (simp add: field_simps)
  moreover have "(2::rat) powi (- bitlen (m - 1) + 1) = 1 / 2 ^ (k - 1)"
  proof -
    have e: "bitlen (m - 1) = int k" using bitlen_nonneg [of "m - 1"] by (simp add: k_def)
    have "- bitlen (m - 1) + 1 = - int (k - 1)" using k by (simp add: e of_nat_diff)
    then have "(2::rat) powi (- bitlen (m - 1) + 1) = 2 powi (- int (k - 1))" by (simp only:)
    also have "\<dots> = 1 / 2 ^ (k - 1)" by (simp add: power_int_minus field_simps)
    finally show ?thesis .
  qed
  ultimately show ?thesis using False by (simp add: exponent_def m_def a_def)
qed

lemma fl_error: "\<bar>fl x - x\<bar> \<le> \<bar>x\<bar> / 2 ^ 53"
proof (cases "x = 0")
  case True
  then show ?thesis by (simp add: fl_def)
next
  case False
  define ulp :: rat where "ulp = 2 powi (exponent x - 52)"
  have pos: "0 < ulp" by (simp add: ulp_def)
  have u: "ulp = 2 powi (exponent x) / 2 ^ 52"
    by (simp add: ulp_def power_int_diff)
  have "fl x - x = (of_int (roundTiesToEven (x / ulp)) - x / ulp) * ulp"
    using False pos by (simp add: fl_def Let_def ulp_def [symmetric] algebra_simps)
  then have "\<bar>fl x - x\<bar> = \<bar>of_int (roundTiesToEven (x / ulp)) - x / ulp\<bar> * ulp"
    using pos by (simp add: abs_mult)
  also have "\<dots> \<le> 1 / 2 * ulp"
    using roundTiesToEven_error [of "x / ulp"] pos by (intro mult_right_mono) simp_all
  also have "\<dots> = 2 powi (exponent x) / 2 ^ 53" by (simp add: u)
  also have "\<dots> \<le> \<bar>x\<bar> / 2 ^ 53"
    using exponent_le [OF False] by (simp add: divide_right_mono)
  finally show ?thesis .
qed

lemma fl_approx:
  fixes a a0 r u :: rat
  assumes "\<bar>a - a0\<bar> \<le> r * \<bar>a0\<bar>" and "u = 1 / 2 ^ 53"
  shows "\<bar>fl a - a0\<bar> \<le> ((1 + r) * (1 + u) - 1) * \<bar>a0\<bar>"
proof -
  have u: "0 \<le> u" by (simp add: assms(2))
  have "\<bar>a\<bar> \<le> \<bar>a0\<bar> + \<bar>a - a0\<bar>" by linarith
  with assms(1) have "\<bar>a\<bar> \<le> (1 + r) * \<bar>a0\<bar>" by (simp add: algebra_simps)
  then have "u * \<bar>a\<bar> \<le> u * ((1 + r) * \<bar>a0\<bar>)" using u by (rule mult_left_mono)
  moreover have "\<bar>fl a - a\<bar> \<le> u * \<bar>a\<bar>" using fl_error [of a] by (simp add: assms(2))
  moreover have "\<bar>fl a - a0\<bar> \<le> \<bar>fl a - a\<bar> + \<bar>a - a0\<bar>" by linarith
  ultimately have "\<bar>fl a - a0\<bar> \<le> u * ((1 + r) * \<bar>a0\<bar>) + r * \<bar>a0\<bar>"
    using assms(1) by linarith
  also have "\<dots> = ((1 + r) * (1 + u) - 1) * \<bar>a0\<bar>" by (simp add: algebra_simps)
  finally show ?thesis .
qed

lemma times_approx:
  fixes a a0 r c :: rat
  assumes "\<bar>a - a0\<bar> \<le> r * \<bar>a0\<bar>"
  shows "\<bar>c * a - c * a0\<bar> \<le> r * \<bar>c * a0\<bar>"
proof -
  have "\<bar>c * a - c * a0\<bar> = \<bar>c\<bar> * \<bar>a - a0\<bar>"
    by (simp add: abs_mult right_diff_distrib [symmetric])
  also have "\<dots> \<le> \<bar>c\<bar> * (r * \<bar>a0\<bar>)" using assms by (intro mult_left_mono) simp_all
  also have "\<dots> = r * \<bar>c * a0\<bar>" by (simp add: abs_mult)
  finally show ?thesis .
qed

lemma divide_approx:
  fixes a a0 r c :: rat
  assumes "\<bar>a - a0\<bar> \<le> r * \<bar>a0\<bar>"
  shows "\<bar>a / c - a0 / c\<bar> \<le> r * \<bar>a0 / c\<bar>"
  using times_approx [OF assms, of "1 / c"] by simp

lemma scaled_product:
  fixes s peak :: int
  assumes "\<bar>s\<bar> \<le> peak" and "0 < peak"
  shows "\<bar>of_int s * (32767 * (95 / 100) / of_int peak) :: rat\<bar> \<le> 32767 * (95 / 100)"
proof -
  have p: "(0 :: rat) < of_int peak" using assms(2) by simp
  have "\<bar>(of_int s :: rat)\<bar> \<le> of_int peak"
    using assms(1) by (metis of_int_abs of_int_le_iff)
  then have "\<bar>(of_int s :: rat)\<bar> / of_int peak \<le> 1" using p by (simp add: divide_le_eq)
  then have "\<bar>(of_int s :: rat)\<bar> / of_int peak * (32767 * (95 / 100)) \<le> 1 * (32767 * (95 / 100))"
    by (intro mult_right_mono) simp_all
  moreover have "\<bar>of_int s * (32767 * (95 / 100) / of_int peak) :: rat\<bar>
      = \<bar>(of_int s :: rat)\<bar> / of_int peak * (32767 * (95 / 100))"
    using p by (simp add: abs_mult)
  ultimately show ?thesis by simp
qed

lemma double_product_close:
  fixes s peak :: int
  assumes "\<bar>s\<bar> \<le> peak" and "0 < peak"
  shows "\<bar>fl (of_int s * normalizationFactor peak)
          - of_int s * (32767 * (95 / 100) / of_int peak)\<bar> \<le> 1 / 10 ^ 10"
proof -
  define u :: rat where "u = 1 / 2 ^ 53"
  define r2 :: rat where "r2 = (1 + u) * (1 + u) - 1"
  define r3 :: rat where "r3 = (1 + r2) * (1 + u) - 1"
  define r4 :: rat where "r4 = (1 + r3) * (1 + u) - 1"
  define M0 :: rat where "M0 = 32767 * (95 / 100)"
  define P0 :: rat where "P0 = of_int s * (M0 / of_int peak)"
  have "\<bar>(95 / 100 :: rat) - 95 / 100\<bar> \<le> 0 * \<bar>95 / 100\<bar>" by simp
  from fl_approx [OF this u_def]
  have "\<bar>fl (95 / 100) - 95 / 100\<bar> \<le> u * \<bar>95 / 100 :: rat\<bar>" by simp
  from times_approx [OF this, of 32767]
  have "\<bar>32767 * fl (95 / 100) - M0\<bar> \<le> u * \<bar>M0\<bar>" by (simp only: M0_def)
  from fl_approx [OF this u_def]
  have "\<bar>maxValue - M0\<bar> \<le> r2 * \<bar>M0\<bar>" by (simp only: maxValue_def r2_def)
  from divide_approx [OF this, of "of_int peak"]
  have "\<bar>maxValue / of_int peak - M0 / of_int peak\<bar> \<le> r2 * \<bar>M0 / of_int peak\<bar>" .
  from fl_approx [OF this u_def]
  have "\<bar>normalizationFactor peak - M0 / of_int peak\<bar> \<le> r3 * \<bar>M0 / of_int peak\<bar>"
    by (simp only: normalizationFactor_def r3_def)
  from times_approx [OF this, of "of_int s"]
  have "\<bar>of_int s * normalizationFactor peak - P0\<bar> \<le> r3 * \<bar>P0\<bar>"
    by (simp only: P0_def)
  from fl_approx [OF this u_def]
  have close: "\<bar>fl (of_int s * normalizationFactor peak) - P0\<bar> \<le> r4 * \<bar>P0\<bar>"
    by (simp only: r4_def)
  have r4: "0 \<le> r4" by (simp add: r4_def r3_def r2_def u_def)
  have "\<bar>P0\<bar> \<le> M0" unfolding P0_def M0_def by (rule scaled_product [OF assms])
  then have "r4 * \<bar>P0\<bar> \<le> r4 * M0" using r4 by (rule mult_left_mono)
  also have "\<dots> \<le> 1 / 10 ^ 10" by (simp add: r4_def r3_def r2_def u_def M0_def)
  finally have "\<bar>fl (of_int s * normalizationFactor peak) - P0\<bar> \<le> 1 / 10 ^ 10"
    using close by linarith
  then show ?thesis by (simp only: P0_def M0_def)
qed

lemma normalizedSample_close:
  fixes s peak :: int
  assumes "\<bar>s\<bar> \<le> peak" and "0 < peak"
  shows "\<bar>(of_int (normalizedSample (normalizationFactor peak) s) :: number)
          - of_int s * (32767 * (95 / 100) / of_int peak)\<bar> \<le> 1 / 2 + 1 / 10 ^ 10"
proof -
  define P where "P = fl (of_int s * normalizationFactor peak)"
  have "of_int \<lfloor>P + 1 / 2\<rfloor> \<le> P + 1 / 2" "P + 1 / 2 < of_int \<lfloor>P + 1 / 2\<rfloor> + 1"
    by linarith+
  then have "\<bar>of_int \<lfloor>P + 1 / 2\<rfloor> - P\<bar> \<le> 1 / 2" by linarith
  with double_product_close [OF assms] show ?thesis
    unfolding normalizedSample_def Math_round_def P_def by linarith
qed

lemma normalizedSample_bound:
  fixes s peak :: int
  assumes "\<bar>s\<bar> \<le> peak" and "0 < peak"
  shows "\<bar>normalizedSample (normalizationFactor peak) s\<bar> \<le> 31129"
proof -
  define P where "P = fl (of_int s * normalizationFactor peak)"
  from double_product_close [OF assms] scaled_product [OF assms]
  have "\<bar>P\<bar> \<le> 32767 * (95 / 100) + 1 / 10 ^ 10" unfolding P_def by linarith
  then have "P + 1 / 2 < of_int 31130" and "of_int (- 31129) \<le> P + 1 / 2"
    by (simp_all add: abs_le_iff)
  then have "\<lfloor>P + 1 / 2\<rfloor> < 31130" and "- 31129 \<le> \<lfloor>P + 1 / 2\<rfloor>"
    by (simp_all only: floor_less_iff le_floor_iff)
  then show ?thesis
    unfolding normalizedSample_def Math_round_def P_def by linarith
qed

lemma normalizedSample_double_rounding:
  "normalizedSample (normalizationFactor 95) 50 = 16383
   \<and> Math_round (50 * (32767 * (95 / 100) / 95)) = 16384"
  by code_simp

lemma normalizedSample_values:
  "normalizedSample (normalizationFactor 1000) 1000 = 31129"
  "normalizedSample (normalizationFactor 1000) 0 = 0"
  "normalizedSample (normalizationFactor 1000) (- 1000) = - 31129"
  "normalizedSample (normalizationFactor 1000) 500 = 15564"
  by code_simp+

lemma findPeak_quietBuffer: "findPeak quietBuffer processingOptions = Inr 1000"
  unfolding findPeak_def forEachSample_default
  by (simp add: quietBuffer_def sampleOffsets_def readInt16LE_def)

text \<open>
  Claim C1 says that normalization multiplies by \<open>min(1.0, 32767\<sqdot>0.95 / peak)\<close>, so
  that a quiet buffer is never amplified. \<open>normalizeAudio\<close> uses the factor
  \<open>32767\<sqdot>0.95 / peak\<close> itself: a frame with the samples 1000 and 0 is amplified to
  31129 and 0.
\<close>

theorem normalizeAudio_caps_factor_counterexample:
  "readInt16LE quietBuffer 0 = Inr 1000
   \<and> normalizeAudio quietBuffer processingOptions = Inr [0x99, 0x79, 0x00, 0x00]
   \<and> readInt16LE [0x99, 0x79, 0x00, 0x00] 0 = Inr 31129"
proof -
  have "readInt16LE quietBuffer 0 = Inr 1000"
    by (simp add: readInt16LE_def quietBuffer_def)
  moreover have "normalizeAudio quietBuffer processingOptions = Inr [0x99, 0x79, 0x00, 0x00]"
    unfolding normalizeAudio_def findPeak_quietBuffer forEachSample_default
    by (simp add: quietBuffer_def sampleOffsets_def readInt16LE_def writeInt16LE_def
        Buffer_alloc_def normalizedSample_values replicate_numeral list_update_Cons_numeral)
  moreover have "readInt16LE [0x99, 0x79, 0x00, 0x00] 0 = Inr 31129"
    by (simp add: readInt16LE_def)
  ultimately show ?thesis by blast
qed

text \<open>
  Claim C1, as amended. Let \<open>peak\<close> be what the normalization step finds as the peak of
  a mix buffer, and let it be greater than 0. Then \<open>peak\<close> is the largest absolute value
  of the samples of the buffer's whole frames, and \<open>normalizeAudio\<close> returns a buffer of
  the same length in which every such sample \<open>s\<close> is replaced by
  \<open>Math.round(s * normalizationFactor)\<close>, clamped to \<open>[-32768, 32767]\<close>, where
  \<open>normalizationFactor\<close> is \<open>32767\<sqdot>0.95 / peak\<close> in double arithmetic, not capped
  at 1. The double product is within \<open>10^-10\<close> of \<open>s \<sqdot> 32767\<sqdot>0.95 / peak\<close>,
  so the new sample is within \<open>1/2 + 10^-10\<close> of it, and its absolute value is at most
  \<open>round(32767\<sqdot>0.95) = 31129\<close>.
\<close>

theorem normalizeAudio_scales_to_headroom:
  assumes "findPeak buffer processingOptions = Inr peak" and "0 < peak"
  shows "(\<forall>k < 2 * (length buffer div 4). \<forall>s.
            readInt16LE buffer (int (2 * k)) = Inr s \<longrightarrow> \<bar>s\<bar> \<le> peak)
     \<and> (\<exists>k < 2 * (length buffer div 4). \<exists>s.
            readInt16LE buffer (int (2 * k)) = Inr s \<and> \<bar>s\<bar> = peak)
     \<and> (\<exists>out. normalizeAudio buffer processingOptions = Inr out
           \<and> length out = length buffer
           \<and> (\<forall>k < 2 * (length buffer div 4). \<exists>s.
                 readInt16LE buffer (int (2 * k)) = Inr s
                 \<and> readInt16LE out (int (2 * k))
                     = Inr (max (- 32768) (min 32767
                         (normalizedSample (normalizationFactor peak) s)))
                 \<and> \<bar>(of_int (normalizedSample (normalizationFactor peak) s) :: number)
                      - of_int s * (32767 * (95 / 100) / of_int peak)\<bar>
                     \<le> 1 / 2 + 1 / 10 ^ 10
                 \<and> \<bar>normalizedSample (normalizationFactor peak) s\<bar> \<le> 31129))"
proof -
  let ?n = "length buffer div 4"
  let ?f = "normalizedSample (normalizationFactor peak)"
  from findPeak_default [of buffer] assms have
    pk: "\<forall>k < 2 * ?n. \<forall>s. readInt16LE buffer (int (2 * k)) = Inr s \<longrightarrow> \<bar>s\<bar> \<le> peak"
    and att: "\<exists>k < 2 * ?n. \<exists>s. readInt16LE buffer (int (2 * k)) = Inr s \<and> \<bar>s\<bar> = peak"
    by auto
  have v: "\<forall>ofs \<in> set (sampleOffsets ?n). even ofs \<and> ofs + 2 \<le> length buffer"
    using sampleOffsets_bound [of _ ?n] sampleOffsets_even [of _ ?n] by fastforce
  have l: "length (replicate (length buffer) (0 :: 8 word)) = length buffer" by simp
  from sample_map_fold [OF v l, of ?f] obtain out where
    f: "foldE (\<lambda>byteIndex out.
                   case readInt16LE buffer (int byteIndex) of
                     Inl e \<Rightarrow> Inl e
                   | Inr sample \<Rightarrow>
                       writeInt16LE out (max (- 32768) (min 32767 (?f sample))) (int byteIndex))
                 (sampleOffsets ?n) (replicate (length buffer) 0) = Inr out"
    and len: "length out = length buffer"
    and vis: "\<forall>ofs \<in> set (sampleOffsets ?n). \<exists>s. readInt16LE buffer (int ofs) = Inr s
                  \<and> readInt16LE out (int ofs) = Inr (max (- 32768) (min 32767 (?f s)))"
    by blast
  have "normalizeAudio buffer processingOptions
      = foldE (\<lambda>byteIndex out.
                   case readInt16LE buffer (int byteIndex) of
                     Inl e \<Rightarrow> Inl e
                   | Inr sample \<Rightarrow>
                       writeInt16LE out (max (- 32768) (min 32767 (?f sample))) (int byteIndex))
                 (sampleOffsets ?n) (replicate (length buffer) 0)"
    unfolding normalizeAudio_def assms(1) forEachSample_default Buffer_alloc_def Let_def
    using assms(2) by simp
  then have n: "normalizeAudio buffer processingOptions = Inr out"
    by (simp only: f)
  have "\<forall>k < 2 * ?n. \<exists>s.
           readInt16LE buffer (int (2 * k)) = Inr s
           \<and> readInt16LE out (int (2 * k)) = Inr (max (- 32768) (min 32767 (?f s)))
           \<and> \<bar>(of_int (?f s) :: number) - of_int s * (32767 * (95 / 100) / of_int peak)\<bar>
               \<le> 1 / 2 + 1 / 10 ^ 10
           \<and> \<bar>?f s\<bar> \<le> 31129"
  proof (intro allI impI)
    fix k assume k: "k < 2 * ?n"
    from vis sampleOffsets_all [OF k] obtain s where
      s: "readInt16LE buffer (int (2 * k)) = Inr s"
         "readInt16LE out (int (2 * k)) = Inr (max (- 32768) (min 32767 (?f s)))"
      by blast
    from pk k s(1) have "\<bar>s\<bar> \<le> peak" by blast
    from normalizedSample_close [OF this assms(2)] normalizedSample_bound [OF this assms(2)] s
    show "\<exists>s. readInt16LE buffer (int (2 * k)) = Inr s
           \<and> readInt16LE out (int (2 * k)) = Inr (max (- 32768) (min 32767 (?f s)))
           \<and> \<bar>(of_int (?f s) :: number) - of_int s * (32767 * (95 / 100) / of_int peak)\<bar>
               \<le> 1 / 2 + 1 / 10 ^ 10
           \<and> \<bar>?f s\<bar> \<le> 31129" by blast
  qed
  with pk att n len show ?thesis by blast
qed

lemma sampleOffsets_2: "sampleOffsets 2 = [0, 2, 4, 6]"
  by (simp add: sampleOffsets_def upt_rec)

lemma findPeak_twoFrames: "findPeak twoFrames processingOptions = Inr 1000"
proof -
  have "length twoFrames div 4 = 2" by (simp add: twoFrames_def)
  then show ?thesis
    unfolding findPeak_def forEachSample_default
    by (simp add: sampleOffsets_2) (simp add: twoFrames_def readInt16LE_def)
qed

lemma normalizeAudio_twoFrames:
  "normalizeAudio twoFrames processingOptions
   = Inr [0x99, 0x79, 0x00, 0x00, 0x67, 0x86, 0xCC, 0x3C]"
proof -
  have "length twoFrames div 4 = 2" by (simp add: twoFrames_def)
  then show ?thesis
    unfolding normalizeAudio_def findPeak_twoFrames forEachSample_default
    by (simp add: sampleOffsets_2 twoFrames_def readInt16LE_def writeInt16LE_def
          Buffer_alloc_def normalizedSample_values replicate_numeral list_update_Cons_numeral)
qed

text \<open>Witness for C1: two frames with the samples 1000, 0, -1000 and 500.\<close>

theorem normalizeAudio_scales_to_headroom_witness:
  "findPeak twoFrames processingOptions = Inr 1000
   \<and> (0 :: int) < 1000
   \<and> normalizeAudio twoFrames processingOptions
       = Inr [0x99, 0x79, 0x00, 0x00, 0x67, 0x86, 0xCC, 0x3C]
   \<and> readInt16LE twoFrames 6 = Inr 500
   \<and> readInt16LE [0x99, 0x79, 0x00, 0x00, 0x67, 0x86, 0xCC, 0x3C] 6 = Inr 15564"
proof -
  have p: "(0 :: int) < 1000" by simp
  from normalizeAudio_scales_to_headroom [OF findPeak_twoFrames p] obtain out where
    n: "normalizeAudio twoFrames processingOptions = Inr out"
    and all: "\<forall>k < 2 * (length twoFrames div 4). \<exists>s.
           readInt16LE twoFrames (int (2 * k)) = Inr s
           \<and> readInt16LE out (int (2 * k))
               = Inr (max (- 32768) (min 32767
                   (normalizedSample (normalizationFactor 1000) s)))"
    by blast
  have out: "out = [0x99, 0x79, 0x00, 0x00, 0x67, 0x86, 0xCC, 0x3C]"
    using n normalizeAudio_twoFrames by simp
  have r: "readInt16LE twoFrames 6 = Inr 500"
    by (simp add: readInt16LE_def twoFrames_def)
  have "(3 :: nat) < 2 * (length twoFrames div 4)" by (simp add: twoFrames_def)
  with all obtain s where
    "readInt16LE twoFrames (int (2 * 3)) = Inr s"
    "readInt16LE out (int (2 * 3))
       = Inr (max (- 32768) (min 32767 (normalizedSample (normalizationFactor 1000) s)))"
    by blast
  with r have "readInt16LE out 6
       = Inr (max (- 32768) (min 32767 (normalizedSample (normalizationFactor 1000) 500)))"
    by simp
  then have "readInt16LE out 6 = Inr 15564"
    by (simp add: normalizedSample_values)
  with findPeak_twoFrames p n r show ?thesis unfolding out by blast
qed

lemma mixChannel_error:
  "mixChannel segmentBuffer volume mixIndex segmentIndex channel mixBuffer = Inl e
   \<Longrightarrow> e = ERR_OUT_OF_RANGE ''offset''"
  by (auto simp: mixChannel_def Let_def split: sum.splits
      dest: readInt16LE_error writeInt16LE_clipped_error)

lemma mixFrame_error:
  assumes "mixFrame segmentBuffer startSample volume opts i mixBuffer = Inl e"
  shows "e = ERR_OUT_OF_RANGE ''offset''"
proof -
  from assms have
    "foldE (mixChannel segmentBuffer volume
              ((startSample + int i) * int (bytesPerSample opts))
              (int i * int (bytesPerSample opts)))
       [0..<opt_channels opts] mixBuffer = Inl e"
    by (auto simp: mixFrame_def Let_def split: if_splits)
  then show ?thesis by (rule foldE_error) (rule mixChannel_error)
qed

lemma mixAudioSegmentIntoBuffer_error:
  assumes "mixAudioSegmentIntoBuffer segmentBuffer mixBuffer startSample volume opts = Inl e"
  shows "e = ERR_OUT_OF_RANGE ''offset''"
  using assms unfolding mixAudioSegmentIntoBuffer_def Let_def
  by (rule foldE_error) (rule mixFrame_error)

lemma mixSegment_error:
  assumes "mixSegment characterEvents opts segment mixBuffer = Inl e"
  shows "e = ERR_OUT_OF_RANGE ''offset''"
  using assms unfolding mixSegment_def Let_def
  by (rule mixAudioSegmentIntoBuffer_error)

lemma mixTrackIntoBuffer_error:
  assumes "mixTrackIntoBuffer track timeline opts mixingOptions mixBuffer = Inl e"
  shows "e = ERR_OUT_OF_RANGE ''offset''"
  using assms unfolding mixTrackIntoBuffer_def Let_def
  by (rule foldE_error) (rule mixSegment_error)

lemma forEachSample_error:
  assumes "forEachSample buffer opts body s = Inl e"
    and "\<And>byteIndex st e'. body byteIndex st = Inl e' \<Longrightarrow> P e'"
  shows "P e"
  using assms(1) unfolding forEachSample_def Let_def
proof (rule foldE_error)
  fix i st e'
  assume "foldE (\<lambda>channel st.
             if i * bytesPerSample opts + channel * 2 + 1 < length buffer
             then body (i * bytesPerSample opts + channel * 2) st else Inr st)
           [0..<opt_channels opts] st = Inl e'"
  then show "P e'"
  proof (rule foldE_error)
    fix channel st' e''
    assume "(if i * bytesPerSample opts + channel * 2 + 1 < length buffer
             then body (i * bytesPerSample opts + channel * 2) st' else Inr st') = Inl e''"
    then show "P e''" using assms(2) by (auto split: if_splits)
  qed
qed

lemma findPeak_error:
  assumes "findPeak buffer opts = Inl e"
  shows "e = ERR_OUT_OF_RANGE ''offset''"
  using assms unfolding findPeak_def
  by (rule forEachSample_error) (auto split: sum.splits dest: readInt16LE_error)

lemma normalizeAudio_error:
  assumes "normalizeAudio buffer opts = Inl e"
  shows "e = ERR_OUT_OF_RANGE ''offset''"
proof (cases "findPeak buffer opts")
  case (Inl e')
  with assms have "e = e'" by (simp add: normalizeAudio_def)
  with findPeak_error [OF Inl] show ?thesis by simp
next
  case (Inr peak)
  with assms have
    "forEachSample buffer opts
       (\<lambda>byteIndex out.
          case readInt16LE buffer (int byteIndex) of
            Inl e \<Rightarrow> Inl e
          | Inr sample \<Rightarrow>
              writeInt16LE out
                (max (- 32768) (min 32767 (normalizedSample (normalizationFactor peak) sample)))
                (int byteIndex))
       (replicate (length buffer) 0) = Inl e"
    unfolding normalizeAudio_def Buffer_alloc_def Let_def
    by (simp split: if_splits)
  then show ?thesis
    by (rule forEachSample_error)
       (auto split: sum.splits dest: readInt16LE_error writeInt16LE_clipped_error)
qed

lemma applyCompression_error:
  assumes "applyCompression buffer compressionLevel opts = Inl e"
  shows "e = ERR_OUT_OF_RANGE ''offset''"
proof -
  from assms have
    "forEachSample buffer opts
       (\<lambda>byteIndex out.
          case readInt16LE buffer (int byteIndex) of
            Inl e \<Rightarrow> Inl e
          | Inr sample \<Rightarrow>
              writeInt16LE out
                (max (- 32768) (min 32767
                   (Math_round
                      (if \<bar>of_int sample :: number\<bar> > 32767 * (1 - compressionLevel)
                       then (if sample \<ge> 0 then 1 else - 1)
                            * (32767 * (1 - compressionLevel)
                               + (\<bar>of_int sample\<bar> - 32767 * (1 - compressionLevel))
                                 / (1 + compressionLevel * 3))
                       else of_int sample))))
                (int byteIndex))
       (replicate (length buffer) 0) = Inl e"
    unfolding applyCompression_def Buffer_alloc_def Let_def
    by (simp split: if_splits)
  then show ?thesis
    by (rule forEachSample_error)
       (auto split: sum.splits dest: readInt16LE_error writeInt16LE_clipped_error)
qed

lemma mixConversation_error:
  assumes "mixConversation tracks timeline options = Inl e"
  shows "e \<noteq> ERR_OUT_OF_RANGE ''value''"
proof -
  have tr: "\<And>mixBuffer e'.
      foldE (\<lambda>track. mixTrackIntoBuffer track timeline processingOptions options)
        tracks mixBuffer = Inl e' \<Longrightarrow> e' = ERR_OUT_OF_RANGE ''offset''"
    by (erule foldE_error) (rule mixTrackIntoBuffer_error)
  from assms show ?thesis
    unfolding mixConversation_def Let_def Buffer_alloc_def
    by (auto split: if_splits sum.splits
        dest!: tr normalizeAudio_error applyCompression_error)
qed

lemma mixChannel_saturates:
  assumes "mixChannel segmentBuffer volume mixIndex segmentIndex channel mixBuffer = Inr mixed"
  shows "\<exists>mixValue segmentValue.
           readInt16LE mixBuffer (mixIndex + int channel * 2) = Inr mixValue
           \<and> readInt16LE segmentBuffer (segmentIndex + int channel * 2) = Inr segmentValue
           \<and> readInt16LE mixed (mixIndex + int channel * 2)
               = Inr (max (- 32768) (min 32767
                   (mixValue + Math_round (of_int segmentValue * volume))))"
  using assms
  by (auto simp: mixChannel_def Let_def split: sum.splits
      dest: readInt16LE_writeInt16LE_same)

text \<open>
  Claim C5. No step of the mixer ever writes a value outside \<open>[-32768, 32767]\<close>: mixing
  a segment, normalization, compression and \<open>mixConversation\<close> as a whole never fail
  with the range error of \<open>writeInt16LE\<close> for its value. Each write of the mixing loop
  stores the saturated sum \<open>max(-32768, min(32767, mixValue + round(segmentValue \<sqdot>
  volume)))\<close>, and every 16-bit sample of a master buffer that \<open>mixConversation\<close>
  returns lies in \<open>[-32768, 32767]\<close>.
\<close>

theorem mixer_samples_stay_in_range:
  "mixAudioSegmentIntoBuffer segmentBuffer mixBuffer startSample volume opts
     \<noteq> Inl (ERR_OUT_OF_RANGE ''value'')
   \<and> normalizeAudio buffer opts \<noteq> Inl (ERR_OUT_OF_RANGE ''value'')
   \<and> applyCompression buffer compressionLevel opts \<noteq> Inl (ERR_OUT_OF_RANGE ''value'')
   \<and> mixConversation tracks timeline options \<noteq> Inl (ERR_OUT_OF_RANGE ''value'')
   \<and> (\<forall>mixed. mixChannel segmentBuffer volume mixIndex segmentIndex channel mixBuffer
                  = Inr mixed \<longrightarrow>
         (\<exists>mixValue segmentValue.
            readInt16LE mixBuffer (mixIndex + int channel * 2) = Inr mixValue
            \<and> readInt16LE segmentBuffer (segmentIndex + int channel * 2) = Inr segmentValue
            \<and> readInt16LE mixed (mixIndex + int channel * 2)
                = Inr (max (- 32768) (min 32767
                    (mixValue + Math_round (of_int segmentValue * volume))))))
   \<and> (\<forall>master offset s.
         mixConversation tracks timeline options = Inr master
         \<longrightarrow> readInt16LE master offset = Inr s
         \<longrightarrow> - 32768 \<le> s \<and> s \<le> 32767)"
proof -
  have a: "mixAudioSegmentIntoBuffer segmentBuffer mixBuffer startSample volume opts
     \<noteq> Inl (ERR_OUT_OF_RANGE ''value'')"
    using mixAudioSegmentIntoBuffer_error by fastforce
  have b: "normalizeAudio buffer opts \<noteq> Inl (ERR_OUT_OF_RANGE ''value'')"
    using normalizeAudio_error by fastforce
  have c: "applyCompression buffer compressionLevel opts \<noteq> Inl (ERR_OUT_OF_RANGE ''value'')"
    using applyCompression_error by fastforce
  have d: "mixConversation tracks timeline options \<noteq> Inl (ERR_OUT_OF_RANGE ''value'')"
    using mixConversation_error by blast
  from a b c d mixChannel_saturates readInt16LE_range show ?thesis by blast
qed

lemma mixChannel_loud:
  "mixChannel [0x10, 0x27, 0xF0, 0xD8] 1 0 0 0 [0x30, 0x75, 0xD0, 0x8A]
   = Inr [0xFF, 0x7F, 0xD0, 0x8A]"
  by (simp add: mixChannel_def readInt16LE_def writeInt16LE_def Math_round_def
      floor_rat_divide_numeral list_update_Cons_numeral)

lemma mixConversation_loud:
  "mixConversation loudTracks shortTimeline plainMixing = Inr [0xFF, 0x7F, 0x00, 0x80]"
  by (simp add: mixConversation_def loudTracks_def loudTrack_def shortTimeline_def
      plainMixing_def processingOptions_def bytesPerSample_def Buffer_alloc_def
      Math_ceil_def Math_floor_def ceiling_rat_divide_numeral
      mixTrackIntoBuffer_def mixSegment_def mixAudioSegmentIntoBuffer_def mixFrame_def
      mixChannel_def readInt16LE_def writeInt16LE_def Math_round_def
      floor_rat_divide_numeral floor_rat_minus_divide_numeral
      replicate_numeral list_update_Cons_numeral upt_rec)

text \<open>
  Witness for C5: two tracks whose first samples are 30000 and 10000, and -30000 and
  -10000; the master holds 32767 and -32768.
\<close>

theorem mixer_samples_stay_in_range_witness:
  "mixConversation loudTracks shortTimeline plainMixing = Inr [0xFF, 0x7F, 0x00, 0x80]
   \<and> readInt16LE [0xFF, 0x7F, 0x00, 0x80] 2 = Inr (- 32768)
   \<and> mixChannel [0x10, 0x27, 0xF0, 0xD8] 1 0 0 0 [0x30, 0x75, 0xD0, 0x8A]
       = Inr [0xFF, 0x7F, 0xD0, 0x8A]
   \<and> readInt16LE [0x30, 0x75, 0xD0, 0x8A] 0 = Inr 30000
   \<and> readInt16LE [0x10, 0x27, 0xF0, 0xD8] 0 = Inr 10000
   \<and> readInt16LE [0xFF, 0x7F, 0xD0, 0x8A] 0 = Inr 32767"
proof -
  have r2: "readInt16LE [0xFF, 0x7F, 0x00, 0x80] 2 = Inr (- 32768)"
    by (simp add: readInt16LE_def)
  have rm: "readInt16LE [0x30, 0x75, 0xD0, 0x8A] 0 = Inr 30000"
    by (simp add: readInt16LE_def)
  have rs: "readInt16LE [0x10, 0x27, 0xF0, 0xD8] 0 = Inr 10000"
    by (simp add: readInt16LE_def)
  from mixer_samples_stay_in_range
    [of "[0x10, 0x27, 0xF0, 0xD8]" "[0x30, 0x75, 0xD0, 0x8A]" 0 1 processingOptions
        "[]" 0 loudTracks shortTimeline plainMixing 0 0 0]
  have sat: "\<forall>mixed. mixChannel [0x10, 0x27, 0xF0, 0xD8] 1 0 0 0 [0x30, 0x75, 0xD0, 0x8A]
                  = Inr mixed \<longrightarrow>
         (\<exists>mixValue segmentValue.
            readInt16LE [0x30, 0x75, 0xD0, 0x8A] (0 + int 0 * 2) = Inr mixValue
            \<and> readInt16LE [0x10, 0x27, 0xF0, 0xD8] (0 + int 0 * 2) = Inr segmentValue
            \<and> readInt16LE mixed (0 + int 0 * 2)
                = Inr (max (- 32768) (min 32767
                    (mixValue + Math_round (of_int segmentValue * 1)))))"
    and rng: "\<forall>master offset s.
         mixConversation loudTracks shortTimeline plainMixing = Inr master
         \<longrightarrow> readInt16LE master offset = Inr s
         \<longrightarrow> - 32768 \<le> s \<and> s \<le> 32767"
    by blast+
  from sat mixChannel_loud obtain mixValue segmentValue where
    "readInt16LE [0x30, 0x75, 0xD0, 0x8A] (0 + int 0 * 2) = Inr mixValue"
    "readInt16LE [0x10, 0x27, 0xF0, 0xD8] (0 + int 0 * 2) = Inr segmentValue"
    "readInt16LE [0xFF, 0x7F, 0xD0, 0x8A] (0 + int 0 * 2)
       = Inr (max (- 32768) (min 32767 (mixValue + Math_round (of_int segmentValue * 1))))"
    by blast
  with rm rs have "readInt16LE [0xFF, 0x7F, 0xD0, 0x8A] 0
       = Inr (max (- 32768) (min 32767 (30000 + Math_round (of_int 10000 * 1))))"
    by simp
  then have r0: "readInt16LE [0xFF, 0x7F, 0xD0, 0x8A] 0 = Inr 32767"
    by (simp add: Math_round_def floor_rat_divide_numeral)
  from rng mixConversation_loud r2 have "- 32768 \<le> (- 32768 :: int)" by blast
  with mixConversation_loud r2 mixChannel_loud rm rs r0 show ?thesis by blast
qed

subsection \<open>Subtitle reader\<close>

text \<open>
  Claim C9. Parsing the SRT block \<open>1\n00:00:01,000 --> 00:00:03,000\nALICE: Hello
  [happy]!\n\<close> yields exactly one entry: index 1, start 1.0 s, end 3.0 s, speaker
  \<open>ALICE\<close>, emotion \<open>happy\<close> and the text \<open>Hello !\<close>, from which the bracketed
  annotation has been removed.
\<close>

theorem parseSRT_alice_block:
  "parseSRT aliceBlock =
     [\<lparr> sub_index = 1, sub_startTime = Some 1, sub_endTime = Some 3,
        sub_startTimecode = ''00:00:01:00'', sub_endTimecode = ''00:00:03:00'',
        sub_text = ''Hello !'', sub_speaker = Some ''ALICE'',
        sub_emotion = Some \<lparr> se_primary = ''happy'', se_intensity = 7 / 10,
                              se_confidence = 8 / 10 \<rparr> \<rparr>]"
  by code_simp

end
